theory Spec2Isabelle
  imports Complex_Main
begin

section \<open>Mat2: the 2x2 row-major matrix class\<close>

text \<open>
  The class \<open>Mat2\<close> has four numeric fields and only static methods. Its objects are
  mutable and passed by reference, and two of them (\<open>Mat2.IDENTITY\<close>, \<open>Mat2.ZERO\<close>)
  are shared statics, so the model keeps the objects in an explicit store and hands
  references around. The methods of this section are stated over exact reals: \<open>===\<close>
  is equality, \<open>*\<close> and \<open>+\<close> are the field operations. \<open>determinant\<close> and \<open>inverse\<close>,
  whose outcome depends on overflow and rounding, are modelled over IEEE doubles in
  the section after this one.
\<close>

subsection \<open>Values, objects and the store\<close>

text \<open>
  The fields of a \<open>Mat2\<close> object. The element type is a parameter: the constructor and
  the array conversions only move elements around, and at run time nothing stops a
  caller from handing them something other than numbers. The arithmetic methods are
  modelled at element type \<open>real\<close>.
\<close>

record 'a Mat2 =
  v11 :: 'a
  v12 :: 'a
  v21 :: 'a
  v22 :: 'a

text \<open>What a JavaScript array may hold at run time: a number, or a nested array.\<close>

datatype jsval = Num real | Arr "jsval list"

instantiation jsval :: zero
begin

definition zero_jsval :: jsval where
  "zero_jsval = Num 0"

instance ..

end

text \<open>
  Exceptions: the \<open>RangeError\<close> of \<open>new Array(n)\<close> on an invalid length, and the
  \<open>Error(message)\<close> thrown by \<open>inverse\<close>.
\<close>

datatype error = RangeError | Error string

type_synonym ref = nat

text \<open>
  The store: the allocated \<open>Mat2\<close> objects (a reference is an index into \<open>heap\<close>; a
  new object goes to the end) and the lines written by \<open>console.warn\<close>.
\<close>

record 'a store =
  heap :: "'a Mat2 list"
  console :: "string list"

definition obj :: "'a store \<Rightarrow> ref \<Rightarrow> 'a Mat2" where
  "obj s r = heap s ! r"

definition allocated :: "'a store \<Rightarrow> ref \<Rightarrow> bool" where
  "allocated s r \<longleftrightarrow> r < length (heap s)"

definition update_obj :: "ref \<Rightarrow> ('a Mat2 \<Rightarrow> 'a Mat2) \<Rightarrow> 'a store \<Rightarrow> 'a store" where
  "update_obj r f s = s\<lparr>heap := (heap s)[r := f (heap s ! r)]\<rparr>"

subsection \<open>The constructor\<close>

text \<open>
  \<open>new Array<number>(n).fill(0)\<close>: \<open>new Array(n)\<close> throws a \<open>RangeError\<close> unless \<open>n\<close>
  is an integer with \<open>0 \<le> n < 2^32\<close>.
\<close>

definition new_Array_fill :: "int \<Rightarrow> 'a \<Rightarrow> error + 'a list" where
  "new_Array_fill n v =
     (if n < 0 \<or> 2 ^ 32 \<le> n then Inl RangeError else Inr (replicate (nat n) v))"

definition warn_over :: string where
  "warn_over = ''Values length is over than 4, it will be cut off.''"

definition warn_less :: string where
  "warn_less = ''Values length is less than 4, others will fill with ZERO.''"

text \<open>
  The first half of the constructor: the warning lines and \<open>invalidValues\<close>.
  \<open>values.slice(0, 4)\<close> is \<open>take 4\<close>; the spread \<open>[...values, ...zeros]\<close> is \<open>@\<close>.
\<close>

definition invalidValues :: "'a::zero list \<Rightarrow> error + (string list \<times> 'a list)" where
  "invalidValues values =
     (let len = int (length values) in
      if len > 4 then Inr ([warn_over], take 4 values)
      else if len < 4 then
        (case new_Array_fill (4 - len) 0 of
           Inl e \<Rightarrow> Inl e
         | Inr zeros \<Rightarrow> Inr ([warn_less], values @ zeros))
      else Inr ([], values))"

text \<open>
  The destructuring assignment \<open>[this.v11, this.v12, this.v21, this.v22] = invalidValues\<close>.
\<close>

definition assign_fields :: "'a list \<Rightarrow> 'a Mat2" where
  "assign_fields vs = \<lparr>v11 = vs ! 0, v12 = vs ! 1, v21 = vs ! 2, v22 = vs ! 3\<rparr>"

text \<open>The constructor as a function: the warnings it prints and the fields it sets.\<close>

definition Mat2_constructor :: "'a::zero list \<Rightarrow> error + (string list \<times> 'a Mat2)" where
  "Mat2_constructor values =
     (case invalidValues values of
        Inl e \<Rightarrow> Inl e
      | Inr (warnings, vs) \<Rightarrow> Inr (warnings, assign_fields vs))"

text \<open>\<open>new Mat2(...values)\<close>: run the constructor, allocate the object, print the warnings.\<close>

definition new_Mat2 :: "'a::zero list \<Rightarrow> 'a store \<Rightarrow> error + (ref \<times> 'a store)" where
  "new_Mat2 values s =
     (case Mat2_constructor values of
        Inl e \<Rightarrow> Inl e
      | Inr (warnings, m) \<Rightarrow>
          Inr (length (heap s),
               s\<lparr>heap := heap s @ [m], console := console s @ warnings\<rparr>))"

subsection \<open>The statics\<close>

text \<open>
  The static initialisers run once, in source order, on the empty store: first
  \<open>IDENTITY = new Mat2(1, 0, 0, 1)\<close>, then \<open>ZERO = new Mat2(0, 0, 0, 0)\<close>. The two
  references are therefore 0 and 1.
\<close>

definition IDENTITY :: ref where
  "IDENTITY = 0"

definition ZERO :: ref where
  "ZERO = 1"

definition empty_store :: "'a store" where
  "empty_store = \<lparr>heap = [], console = []\<rparr>"

definition class_init :: "error + ((ref \<times> ref) \<times> real store)" where
  "class_init =
     (case new_Mat2 [1, 0, 0, 1] empty_store of
        Inl e \<Rightarrow> Inl e
      | Inr (i, s1) \<Rightarrow>
          (case new_Mat2 [0, 0, 0, 0] s1 of
             Inl e \<Rightarrow> Inl e
           | Inr (z, s2) \<Rightarrow> Inr ((i, z), s2)))"

subsection \<open>Static methods that only read\<close>

definition toArray :: "'a Mat2 \<Rightarrow> 'a list list" where
  "toArray m = [[v11 m, v12 m], [v21 m, v22 m]]"

text \<open>\<open>Array.prototype.flat()\<close> on an array of rows.\<close>

definition toFlatArray :: "'a Mat2 \<Rightarrow> 'a list" where
  "toFlatArray m = concat (toArray m)"

definition flat :: "'a Mat2 \<Rightarrow> 'a list" where
  "flat m = toFlatArray m"

definition equalPerElement :: "'a Mat2 \<Rightarrow> 'a Mat2 \<Rightarrow> bool" where
  "equalPerElement a b \<longleftrightarrow>
     v11 a = v11 b \<and> v12 a = v12 b \<and> v21 a = v21 b \<and> v22 a = v22 b"

subsection \<open>Static methods that allocate or mutate\<close>

text \<open>
  \<open>copyTo(sourceMatrix, toMatrix = Mat2.ZERO)\<close>: an omitted target is \<open>None\<close>. The four
  assignments run in order, each reading the source as it is at that moment.
\<close>

definition copyTo :: "ref \<Rightarrow> ref option \<Rightarrow> 'a store \<Rightarrow> ref \<times> 'a store" where
  "copyTo sourceMatrix target s =
     (let toMatrix = (case target of None \<Rightarrow> ZERO | Some t \<Rightarrow> t);
          s1 = update_obj toMatrix (\<lambda>t. t\<lparr>v11 := v11 (obj s sourceMatrix)\<rparr>) s;
          s2 = update_obj toMatrix (\<lambda>t. t\<lparr>v12 := v12 (obj s1 sourceMatrix)\<rparr>) s1;
          s3 = update_obj toMatrix (\<lambda>t. t\<lparr>v21 := v21 (obj s2 sourceMatrix)\<rparr>) s2;
          s4 = update_obj toMatrix (\<lambda>t. t\<lparr>v22 := v22 (obj s3 sourceMatrix)\<rparr>) s3
      in (toMatrix, s4))"

definition clone :: "ref \<Rightarrow> 'a::zero store \<Rightarrow> error + (ref \<times> 'a store)" where
  "clone m s = new_Mat2 [v11 (obj s m), v12 (obj s m), v21 (obj s m), v22 (obj s m)] s"

text \<open>\<open>fromArray(arr)\<close> spreads the array into the constructor's arguments.\<close>

definition fromArray :: "'a::zero list \<Rightarrow> 'a store \<Rightarrow> error + (ref \<times> 'a store)" where
  "fromArray arr s = new_Mat2 arr s"

definition multiply :: "ref \<Rightarrow> ref \<Rightarrow> real store \<Rightarrow> error + (ref \<times> real store)" where
  "multiply left right s =
     (let l = flat (obj s left);
          leftV11 = l ! 0; leftV12 = l ! 1; leftV21 = l ! 2; leftV22 = l ! 3;
          r = flat (obj s right);
          rightV11 = r ! 0; rightV12 = r ! 1; rightV21 = r ! 2; rightV22 = r ! 3
      in new_Mat2
           [leftV11 * rightV11 + leftV12 * rightV21, leftV11 * rightV12 + leftV12 * rightV22,
            leftV21 * rightV11 + leftV22 * rightV21, leftV21 * rightV12 + leftV22 * rightV22]
           s)"

text \<open>
  \<open>forEachRowOrder(m, fn)\<close> overwrites the fields of \<open>m\<close> in place, in row order, and
  returns \<open>m\<close> itself. The callback is a pure function of the element and its index.
\<close>

definition forEachRowOrder :: "ref \<Rightarrow> ('a \<Rightarrow> nat \<Rightarrow> 'a) \<Rightarrow> 'a store \<Rightarrow> ref \<times> 'a store" where
  "forEachRowOrder m fn s =
     (let s1 = update_obj m (\<lambda>t. t\<lparr>v11 := fn (v11 t) 0\<rparr>) s;
          s2 = update_obj m (\<lambda>t. t\<lparr>v12 := fn (v12 t) 1\<rparr>) s1;
          s3 = update_obj m (\<lambda>t. t\<lparr>v21 := fn (v21 t) 2\<rparr>) s2;
          s4 = update_obj m (\<lambda>t. t\<lparr>v22 := fn (v22 t) 3\<rparr>) s3
      in (m, s4))"

text \<open>
  \<open>multiplyByScalar(m, num)\<close>: for \<open>num === 0\<close> the shared object \<open>Mat2.ZERO\<close> itself is
  returned; otherwise a clone of \<open>m\<close> is scaled in place.
\<close>

definition multiplyByScalar :: "ref \<Rightarrow> real \<Rightarrow> real store \<Rightarrow> error + (ref \<times> real store)" where
  "multiplyByScalar m num s =
     (if num = 0 then Inr (ZERO, s)
      else
        (case clone m s of
           Inl e \<Rightarrow> Inl e
         | Inr (t, s1) \<Rightarrow> Inr (forEachRowOrder t (\<lambda>v i. v * num) s1)))"

definition inverse_msg :: string where
  "inverse_msg = ''Can not be inverse !''"

subsection \<open>Run-time view of nested arrays\<close>

text \<open>
  \<open>toArray\<close> returns a \<open>number[][]\<close>. As a JavaScript array it has two entries, each of
  them an array of two numbers; \<open>js_array\<close> is that array, \<open>js_Mat2\<close> the object whose
  fields hold the numbers of a matrix.
\<close>

definition js_array :: "real list list \<Rightarrow> jsval list" where
  "js_array rows = map (\<lambda>row. Arr (map Num row)) rows"

definition js_Mat2 :: "real Mat2 \<Rightarrow> jsval Mat2" where
  "js_Mat2 m = \<lparr>v11 = Num (v11 m), v12 = Num (v12 m), v21 = Num (v21 m), v22 = Num (v22 m)\<rparr>"

subsection \<open>Two stores used as examples\<close>

text \<open>
  The store right after the static initialisers, plus one more object at reference 2:
  \<open>new Mat2(1, 2, 3, 4)\<close> in \<open>sample_store\<close>, \<open>new Mat2(0, 0, 0, 0)\<close> in \<open>zeros_store\<close>.
\<close>

definition sample_store :: "real store" where
  "sample_store =
     \<lparr>heap = [\<lparr>v11 = 1, v12 = 0, v21 = 0, v22 = 1\<rparr>, \<lparr>v11 = 0, v12 = 0, v21 = 0, v22 = 0\<rparr>,
              \<lparr>v11 = 1, v12 = 2, v21 = 3, v22 = 4\<rparr>],
      console = []\<rparr>"

definition zeros_store :: "real store" where
  "zeros_store =
     \<lparr>heap = [\<lparr>v11 = 1, v12 = 0, v21 = 0, v22 = 1\<rparr>, \<lparr>v11 = 0, v12 = 0, v21 = 0, v22 = 0\<rparr>,
              \<lparr>v11 = 0, v12 = 0, v21 = 0, v22 = 0\<rparr>],
      console = []\<rparr>"

section \<open>Determinant and inverse over IEEE doubles\<close>

text \<open>
  \<open>Mat2.determinant\<close> and \<open>Mat2.inverse\<close> depend on what the arithmetic of JavaScript
  numbers does at its limits: a product that overflows is \<open>Infinity\<close>, \<open>1 / Infinity\<close> is
  0, and a difference of two rounded products can be 0 for a matrix that is not
  singular. They are therefore modelled on IEEE 754 binary64 values with
  round-to-nearest, ties-to-even.
\<close>

subsection \<open>The numbers\<close>

text \<open>
  A double is a finite value with a sign (\<open>True\<close> is negative) and a magnitude, so that
  \<open>+0\<close> and \<open>-0\<close> are different, or one of the two infinities, or NaN. The magnitude of
  a double is zero or \<open>n * 2^e\<close> with \<open>n < 2^53\<close> and \<open>-1074 \<le> e \<le> 971\<close>; the
  operations below return such values.
\<close>

datatype double = Finite bool rat | Infinity bool | NaN

instantiation double :: zero
begin

definition zero_double :: double where
  "zero_double = Finite False 0"

instance ..

end

fun is_finite :: "double \<Rightarrow> bool" where
  "is_finite (Finite s m) = True"
| "is_finite _ = False"

text \<open>The rational value of a finite double.\<close>

fun val :: "double \<Rightarrow> rat" where
  "val (Finite s m) = (if s then - m else m)"
| "val _ = 0"

text \<open>
  \<open>x === y\<close> on numbers: NaN equals nothing, \<open>+0\<close> equals \<open>-0\<close>.
\<close>

fun strict_eq :: "double \<Rightarrow> double \<Rightarrow> bool" where
  "strict_eq (Finite s m) (Finite s' m') \<longleftrightarrow> val (Finite s m) = val (Finite s' m')"
| "strict_eq (Infinity s) (Infinity s') \<longleftrightarrow> s = s'"
| "strict_eq _ _ \<longleftrightarrow> False"

text \<open>The number of binary digits of a positive integer.\<close>

function bitlen :: "int \<Rightarrow> int" where
  "bitlen n = (if n \<le> 0 then 0 else 1 + bitlen (n div 2))"
  by pat_completeness auto
termination
  by (relation "measure nat") auto

declare bitlen.simps [simp del]

text \<open>For a positive rational \<open>q\<close>, the integer \<open>e\<close> with \<open>2^e \<le> q < 2^(e+1)\<close>.\<close>

definition floor_log2 :: "rat \<Rightarrow> int" where
  "floor_log2 q =
     (if 1 \<le> q then bitlen \<lfloor>q\<rfloor> - 1
      else - bitlen (\<lceil>1 / q\<rceil> - 1))"

definition pow2 :: "int \<Rightarrow> rat" where
  "pow2 e = (if 0 \<le> e then 2 ^ nat e else 1 / 2 ^ nat (- e))"

text \<open>The nearest integer, a tie going to the even one.\<close>

definition round_half_even :: "rat \<Rightarrow> int" where
  "round_half_even x =
     (let f = \<lfloor>x\<rfloor>; r = x - of_int f
      in if r < 1 / 2 then f
         else if 1 / 2 < r then f + 1
         else if even f then f else f + 1)"

text \<open>
  Rounding a magnitude to 53 significant bits. Below \<open>2^-1022\<close> the spacing stays at
  \<open>2^-1074\<close> (subnormal numbers), so a small magnitude may round to 0.
\<close>

definition round_magnitude :: "rat \<Rightarrow> rat" where
  "round_magnitude mag =
     (if mag = 0 then 0
      else
        (let e = max (floor_log2 mag) (- 1022);
             ulp = pow2 (e - 52)
         in of_int (round_half_even (mag / ulp)) * ulp))"

text \<open>
  The double for an exact result with sign \<open>s\<close> and magnitude \<open>mag\<close>: \<open>Infinity\<close> when
  the rounded magnitude reaches \<open>2^1024\<close>.
\<close>

definition fround :: "bool \<Rightarrow> rat \<Rightarrow> double" where
  "fround s mag =
     (if 2 ^ 1024 \<le> mag then Infinity s
      else
        (let r = round_magnitude mag
         in if 2 ^ 1024 \<le> r then Infinity s else Finite s r))"

text \<open>Unary minus, \<open>*\<close>, \<open>/\<close>, \<open>+\<close> and \<open>-\<close> on numbers.\<close>

fun d_neg :: "double \<Rightarrow> double" where
  "d_neg (Finite s m) = Finite (\<not> s) m"
| "d_neg (Infinity s) = Infinity (\<not> s)"
| "d_neg NaN = NaN"

fun d_mul :: "double \<Rightarrow> double \<Rightarrow> double" where
  "d_mul (Finite s m) (Finite s' m') = fround (s \<noteq> s') (m * m')"
| "d_mul (Finite s m) (Infinity s') = (if m = 0 then NaN else Infinity (s \<noteq> s'))"
| "d_mul (Infinity s) (Finite s' m') = (if m' = 0 then NaN else Infinity (s \<noteq> s'))"
| "d_mul (Infinity s) (Infinity s') = Infinity (s \<noteq> s')"
| "d_mul _ _ = NaN"

fun d_div :: "double \<Rightarrow> double \<Rightarrow> double" where
  "d_div (Finite s m) (Finite s' m') =
     (if m' = 0 then (if m = 0 then NaN else Infinity (s \<noteq> s'))
      else fround (s \<noteq> s') (m / m'))"
| "d_div (Finite s m) (Infinity s') = Finite (s \<noteq> s') 0"
| "d_div (Infinity s) (Finite s' m') = Infinity (s \<noteq> s')"
| "d_div _ _ = NaN"

text \<open>
  An exact sum of 0 is \<open>-0\<close> only when both operands are negative (or \<open>-0\<close>), and
  \<open>+0\<close> otherwise.
\<close>

fun d_add :: "double \<Rightarrow> double \<Rightarrow> double" where
  "d_add (Finite s m) (Finite s' m') =
     (let v = val (Finite s m) + val (Finite s' m')
      in if v = 0 then Finite (s \<and> s') 0 else fround (v < 0) \<bar>v\<bar>)"
| "d_add (Finite s m) (Infinity s') = Infinity s'"
| "d_add (Infinity s) (Finite s' m') = Infinity s"
| "d_add (Infinity s) (Infinity s') = (if s = s' then Infinity s else NaN)"
| "d_add _ _ = NaN"

definition d_sub :: "double \<Rightarrow> double \<Rightarrow> double" where
  "d_sub x y = d_add x (d_neg y)"

subsection \<open>The methods\<close>

definition determinant :: "double Mat2 \<Rightarrow> double" where
  "determinant m = d_sub (d_mul (v11 m) (v22 m)) (d_mul (v12 m) (v21 m))"

text \<open>
  \<open>multiplyByScalar(m, num)\<close> on doubles, as \<open>inverse\<close> calls it: the test is
  \<open>num === 0\<close>, the callback is \<open>v *= num\<close>.
\<close>

definition multiplyByScalar_f64 ::
  "ref \<Rightarrow> double \<Rightarrow> double store \<Rightarrow> error + (ref \<times> double store)" where
  "multiplyByScalar_f64 m num s =
     (if strict_eq num 0 then Inr (ZERO, s)
      else
        (case clone m s of
           Inl e \<Rightarrow> Inl e
         | Inr (t, s1) \<Rightarrow> Inr (forEachRowOrder t (\<lambda>v i. d_mul v num) s1)))"

definition inverse_Mat2 :: "ref \<Rightarrow> double store \<Rightarrow> error + (ref \<times> double store)" where
  "inverse_Mat2 m s =
     (let det = determinant (obj s m) in
      if strict_eq det 0 then Inl (Error inverse_msg)
      else
        (case new_Mat2
                [v22 (obj s m), d_neg (v12 (obj s m)), d_neg (v21 (obj s m)), v11 (obj s m)] s of
           Inl e \<Rightarrow> Inl e
         | Inr (a, s1) \<Rightarrow> multiplyByScalar_f64 a (d_div (Finite False 1) det) s1))"

subsection \<open>Exact operations\<close>

text \<open>
  \<open>exact x q\<close>: the double \<open>x\<close> is finite and its value is the rational \<open>q\<close>. An
  operation is exact when its result is the exact result on the values of its
  operands, that is when nothing was rounded and nothing overflowed.
\<close>

definition exact :: "double \<Rightarrow> rat \<Rightarrow> bool" where
  "exact x q \<longleftrightarrow> is_finite x \<and> val x = q"

text \<open>The elements that \<open>inverse\<close> computes for a matrix: the adjugate times \<open>1 / det\<close>.\<close>

definition inverse_elements :: "double Mat2 \<Rightarrow> double Mat2" where
  "inverse_elements m =
     (let k = d_div (Finite False 1) (determinant m)
      in \<lparr>v11 = d_mul (v22 m) k, v12 = d_mul (d_neg (v12 m)) k,
          v21 = d_mul (d_neg (v21 m)) k, v22 = d_mul (v11 m) k\<rparr>)"

text \<open>Every operation that \<open>inverse\<close> performs on the matrix is exact.\<close>

definition exact_inverse :: "double Mat2 \<Rightarrow> bool" where
  "exact_inverse m \<longleftrightarrow>
     (let p = d_mul (v11 m) (v22 m);
          q = d_mul (v12 m) (v21 m);
          det = d_sub p q;
          k = d_div (Finite False 1) det
      in exact p (val (v11 m) * val (v22 m)) \<and>
         exact q (val (v12 m) * val (v21 m)) \<and>
         exact det (val p - val q) \<and>
         exact k (1 / val det) \<and>
         exact (d_mul (v22 m) k) (val (v22 m) * val k) \<and>
         exact (d_mul (d_neg (v12 m)) k) (- val (v12 m) * val k) \<and>
         exact (d_mul (d_neg (v21 m)) k) (- val (v21 m) * val k) \<and>
         exact (d_mul (v11 m) k) (val (v11 m) * val k))"

subsection \<open>Two stores of doubles used as examples\<close>

text \<open>
  The store after the static initialisers with one more object at reference 2:
  \<open>new Mat2(2 ** 512, 0, 0, 2 ** 512)\<close> in \<open>overflow_store\<close>, \<open>new Mat2(1, 2, 3, 4)\<close> in
  \<open>small_store\<close>. \<open>overflow_store_after\<close> is \<open>overflow_store\<close> with the adjugate that
  \<open>inverse\<close> allocates for the object at reference 2.
\<close>

definition overflow_store :: "double store" where
  "overflow_store =
     \<lparr>heap = [\<lparr>v11 = Finite False 1, v12 = Finite False 0,
               v21 = Finite False 0, v22 = Finite False 1\<rparr>,
              \<lparr>v11 = Finite False 0, v12 = Finite False 0,
               v21 = Finite False 0, v22 = Finite False 0\<rparr>,
              \<lparr>v11 = Finite False (2 ^ 512), v12 = Finite False 0,
               v21 = Finite False 0, v22 = Finite False (2 ^ 512)\<rparr>],
      console = []\<rparr>"

definition overflow_store_after :: "double store" where
  "overflow_store_after =
     \<lparr>heap = [\<lparr>v11 = Finite False 1, v12 = Finite False 0,
               v21 = Finite False 0, v22 = Finite False 1\<rparr>,
              \<lparr>v11 = Finite False 0, v12 = Finite False 0,
               v21 = Finite False 0, v22 = Finite False 0\<rparr>,
              \<lparr>v11 = Finite False (2 ^ 512), v12 = Finite False 0,
               v21 = Finite False 0, v22 = Finite False (2 ^ 512)\<rparr>,
              \<lparr>v11 = Finite False (2 ^ 512), v12 = Finite True 0,
               v21 = Finite True 0, v22 = Finite False (2 ^ 512)\<rparr>],
      console = []\<rparr>"

definition small_store :: "double store" where
  "small_store =
     \<lparr>heap = [\<lparr>v11 = Finite False 1, v12 = Finite False 0,
               v21 = Finite False 0, v22 = Finite False 1\<rparr>,
              \<lparr>v11 = Finite False 0, v12 = Finite False 0,
               v21 = Finite False 0, v22 = Finite False 0\<rparr>,
              \<lparr>v11 = Finite False 1, v12 = Finite False 2,
               v21 = Finite False 3, v22 = Finite False 4\<rparr>],
      console = []\<rparr>"

section \<open>Line: distances from an infinite line\<close>

text \<open>
  Modelled from the spec: the implementation of the class \<open>Line\<close> and of the vector
  and primitive types it uses is not part of the sources; only the declaration
  \<open>dist/struct/3d/Line.d.ts\<close> is. Everything in this section follows the data model
  and the algorithms of the specification (sections 3, 4.1, 6 and 7). Numbers are exact
  reals, and the epsilon the specification leaves open is a parameter \<open>eps\<close>.
\<close>

subsection \<open>Vectors\<close>

text \<open>
  Modelled from the spec: the 3D vector type \<open>Vec3\<close>, an ordered triple of components
  \<open>x\<close>, \<open>y\<close>, \<open>z\<close>.
\<close>

datatype Vec3 = Vec3 (vx: real) (vy: real) (vz: real)

text \<open>Modelled from the spec: \<open>add\<close> of \<open>Vec3\<close> (section 6), returning a new vector.\<close>

fun add :: "Vec3 \<Rightarrow> Vec3 \<Rightarrow> Vec3" where
  "add (Vec3 a b c) (Vec3 d e f) = Vec3 (a + d) (b + e) (c + f)"

text \<open>Modelled from the spec: \<open>subtract\<close> of \<open>Vec3\<close> (section 6).\<close>

fun subtract :: "Vec3 \<Rightarrow> Vec3 \<Rightarrow> Vec3" where
  "subtract (Vec3 a b c) (Vec3 d e f) = Vec3 (a - d) (b - e) (c - f)"

text \<open>
  Modelled from the spec: scaling of a \<open>Vec3\<close>, as used in \<open>origin + t * direction\<close>
  (section 4.1).
\<close>

fun multiplyScalar :: "Vec3 \<Rightarrow> real \<Rightarrow> Vec3" where
  "multiplyScalar (Vec3 a b c) k = Vec3 (a * k) (b * k) (c * k)"

text \<open>Modelled from the spec: \<open>dot\<close> of \<open>Vec3\<close> (section 6).\<close>

fun dot :: "Vec3 \<Rightarrow> Vec3 \<Rightarrow> real" where
  "dot (Vec3 a b c) (Vec3 d e f) = a * d + b * e + c * f"

text \<open>Modelled from the spec: \<open>cross\<close> of \<open>Vec3\<close> (section 6).\<close>

fun cross :: "Vec3 \<Rightarrow> Vec3 \<Rightarrow> Vec3" where
  "cross (Vec3 a b c) (Vec3 d e f) = Vec3 (b * f - c * e) (c * d - a * f) (a * e - b * d)"

text \<open>Modelled from the spec: \<open>lengthSquared\<close> of \<open>Vec3\<close> (section 6).\<close>

definition lengthSquared :: "Vec3 \<Rightarrow> real" where
  "lengthSquared v = dot v v"

text \<open>Modelled from the spec: \<open>length\<close> of \<open>Vec3\<close> (section 6).\<close>

definition length_Vec3 :: "Vec3 \<Rightarrow> real" where
  "length_Vec3 v = sqrt (lengthSquared v)"

text \<open>
  Modelled from the spec: the error taxonomy of the distance engine (section 7). The
  only error of the engine is the degenerate-construction error.
\<close>

datatype geom_error = DegenerateConstruction

text \<open>
  Modelled from the spec: \<open>normalize\<close> of \<open>Vec3\<close>, which fails on a zero-length vector
  instead of dividing by zero (sections 3 and 6).
\<close>

definition normalize :: "Vec3 \<Rightarrow> geom_error + Vec3" where
  "normalize v =
     (if length_Vec3 v = 0 then Inl DegenerateConstruction
      else Inr (multiplyScalar v (1 / length_Vec3 v)))"

subsection \<open>Primitives and results\<close>

text \<open>
  Modelled from the spec: the data of \<open>Line\<close> (section 3). A line is built from
  \<open>origin\<close> and \<open>end\<close>, and construction itself does not fail (section 7).
\<close>

record Line =
  origin :: Vec3
  endp :: Vec3

text \<open>
  Modelled from the spec: the derived field \<open>direction = normalize(end - origin)\<close> of
  \<open>Line\<close> (section 3), undefined when the two points coincide.
\<close>

definition direction :: "Line \<Rightarrow> geom_error + Vec3" where
  "direction l = normalize (subtract (endp l) (origin l))"

text \<open>Modelled from the spec: \<open>Segment\<close>, two endpoints, parameter in [0, 1] (section 3).\<close>

record Segment =
  seg_start :: Vec3
  seg_end :: Vec3

text \<open>
  Modelled from the spec: \<open>Ray\<close>, an origin and a direction, parameter in
  [0, infinity) (section 3).
\<close>

record Ray =
  ray_origin :: Vec3
  ray_direction :: Vec3

text \<open>Modelled from the spec: \<open>Triangle\<close>, three ordered vertices (section 3).\<close>

record Triangle =
  tri_a :: Vec3
  tri_b :: Vec3
  tri_c :: Vec3

text \<open>
  Modelled from the spec: the point sequence of a \<open>Polyline\<close> (section 3), given by its
  first point and the points after it. The specification does not say what an empty
  sequence gives, so the model has none.
\<close>

datatype Polyline = Polyline Vec3 "Vec3 list"

text \<open>
  Modelled from the spec: \<open>DistanceResult\<close>, the minimum distance with the closest point
  on each side (section 3).
\<close>

record DistanceResult =
  distance :: real
  closestPointOnSelf :: Vec3
  closestPointOnOther :: Vec3

text \<open>Modelled from the spec: taking the minimum over candidate results.\<close>

definition closer :: "DistanceResult \<Rightarrow> DistanceResult \<Rightarrow> DistanceResult" where
  "closer r r' = (if distance r' < distance r then r' else r)"

subsection \<open>The distance computations of Line\<close>

text \<open>
  Modelled from the spec: \<open>Line.distancePoint\<close> (section 4.1, Line-Point). The point is
  projected with \<open>t = dot(pt - origin, direction)\<close>, the closest point is
  \<open>origin + t * direction\<close>, unclamped. A line without a direction is reported as the
  degenerate-construction error at this moment (section 7).
\<close>

definition distancePoint :: "Line \<Rightarrow> Vec3 \<Rightarrow> geom_error + DistanceResult" where
  "distancePoint l pt =
     (case direction l of
        Inl e \<Rightarrow> Inl e
      | Inr d \<Rightarrow>
          (let t = dot (subtract pt (origin l)) d;
               c = add (origin l) (multiplyScalar d t)
           in Inr \<lparr>distance = length_Vec3 (subtract pt c),
                   closestPointOnSelf = c, closestPointOnOther = pt\<rparr>))"

text \<open>
  Modelled from the spec: the closed-form closest approach of two lines with unit
  directions \<open>d0\<close>, \<open>d1\<close> that are not parallel (section 4.1, Line-Line): the pair of
  parameters solving the 2x2 linear system of the two directions.
\<close>

definition closest_parameters :: "Vec3 \<Rightarrow> Vec3 \<Rightarrow> Vec3 \<Rightarrow> Vec3 \<Rightarrow> real \<times> real" where
  "closest_parameters o0 d0 o1 d1 =
     (let diff = subtract o0 o1;
          a01 = - dot d0 d1;
          b0 = dot diff d0;
          b1 = - dot diff d1;
          det = 1 - a01 * a01
      in ((a01 * b1 - b0) / det, (a01 * b0 - b1) / det))"

text \<open>
  Modelled from the spec: the result for a pair of parameters, with the closest points in
  the order of the two inputs (section 4.1, Line-Line).
\<close>

definition result_at :: "Vec3 \<Rightarrow> Vec3 \<Rightarrow> real \<Rightarrow> Vec3 \<Rightarrow> Vec3 \<Rightarrow> real \<Rightarrow> DistanceResult" where
  "result_at o0 d0 s0 o1 d1 s1 =
     (let c0 = add o0 (multiplyScalar d0 s0);
          c1 = add o1 (multiplyScalar d1 s1)
      in \<lparr>distance = length_Vec3 (subtract c0 c1),
          closestPointOnSelf = c0, closestPointOnOther = c1\<rparr>)"

text \<open>
  Modelled from the spec: \<open>Line.distanceLine\<close> (section 4.1, Line-Line). When the
  magnitude of the cross product of the directions is below \<open>eps\<close> the lines count as
  parallel and the distance is that from this line to the other line's origin;
  otherwise the closed form is used.
\<close>

definition distanceLine :: "real \<Rightarrow> Line \<Rightarrow> Line \<Rightarrow> geom_error + DistanceResult" where
  "distanceLine eps l other =
     (case direction l of
        Inl e \<Rightarrow> Inl e
      | Inr d0 \<Rightarrow>
          (case direction other of
             Inl e \<Rightarrow> Inl e
           | Inr d1 \<Rightarrow>
               if length_Vec3 (cross d0 d1) < eps then distancePoint l (origin other)
               else
                 (let (s0, s1) = closest_parameters (origin l) d0 (origin other) d1
                  in Inr (result_at (origin l) d0 s0 (origin other) d1 s1))))"

text \<open>
  Modelled from the spec: \<open>Line.distanceSegment\<close> (section 4.1, general pattern). The
  unconstrained problem is solved for the parameter of the segment's supporting line,
  the parameter is clamped to [0, 1], and the point on the line is re-derived by
  projecting the clamped segment point. A zero-length or parallel segment is valid
  geometry: its parameter is taken as 0.
\<close>

definition distanceSegment :: "real \<Rightarrow> Line \<Rightarrow> Segment \<Rightarrow> geom_error + DistanceResult" where
  "distanceSegment eps l seg =
     (case direction l of
        Inl e \<Rightarrow> Inl e
      | Inr d \<Rightarrow>
          (let u = subtract (seg_end seg) (seg_start seg);
               diff = subtract (origin l) (seg_start seg);
               b = dot d u;
               denom = dot u u - b * b;
               t = (if denom < eps then 0 else (dot u diff - b * dot d diff) / denom);
               tc = min 1 (max 0 t)
           in distancePoint l (add (seg_start seg) (multiplyScalar u tc))))"

text \<open>
  Modelled from the spec: \<open>Line.distanceRay\<close> (section 4.1, Line-Ray). A ray with a
  negligible direction is degenerate. The linear system is solved as for two lines; if
  the ray's parameter is negative, the ray's origin is projected on the line and the
  smaller of the two candidates is taken.
\<close>

definition distanceRay :: "real \<Rightarrow> Line \<Rightarrow> Ray \<Rightarrow> geom_error + DistanceResult" where
  "distanceRay eps l ray =
     (case direction l of
        Inl e \<Rightarrow> Inl e
      | Inr d0 \<Rightarrow>
          if length_Vec3 (ray_direction ray) < eps then Inl DegenerateConstruction
          else
            (case normalize (ray_direction ray) of
               Inl e \<Rightarrow> Inl e
             | Inr d1 \<Rightarrow>
                 if length_Vec3 (cross d0 d1) < eps then distancePoint l (ray_origin ray)
                 else
                   (let (s0, s1) = closest_parameters (origin l) d0 (ray_origin ray) d1
                    in if 0 \<le> s1 then Inr (result_at (origin l) d0 s0 (ray_origin ray) d1 s1)
                       else
                         (case distancePoint l (ray_origin ray) of
                            Inl e \<Rightarrow> Inl e
                          | Inr r \<Rightarrow>
                              Inr (closer r (result_at (origin l) d0 s0 (ray_origin ray) d1 0))))))"

text \<open>
  Modelled from the spec: the loop of \<open>Line.distancePolyline\<close> over a raw sequence of
  positions (section 4.1, Line-Polyline): the minimum over the segments of consecutive
  points; a sequence of one point is treated as a point.
\<close>

fun distance_points :: "real \<Rightarrow> Line \<Rightarrow> Vec3 \<Rightarrow> Vec3 list \<Rightarrow> geom_error + DistanceResult" where
  "distance_points eps l p [] = distancePoint l p"
| "distance_points eps l p [q] = distanceSegment eps l \<lparr>seg_start = p, seg_end = q\<rparr>"
| "distance_points eps l p (q # rest) =
     (case distanceSegment eps l \<lparr>seg_start = p, seg_end = q\<rparr> of
        Inl e \<Rightarrow> Inl e
      | Inr r \<Rightarrow>
          (case distance_points eps l q rest of
             Inl e \<Rightarrow> Inl e
           | Inr r' \<Rightarrow> Inr (closer r r')))"

text \<open>
  Modelled from the spec: \<open>Line.distancePolyline\<close> on a polyline, the minimum over its
  consecutive-point segments (section 4.1).
\<close>

fun distancePolyline :: "real \<Rightarrow> Line \<Rightarrow> Polyline \<Rightarrow> geom_error + DistanceResult" where
  "distancePolyline eps l (Polyline p rest) = distance_points eps l p rest"

text \<open>
  Modelled from the spec: the barycentric sign test of \<open>Line.distanceTriangle\<close>
  (section 4.1): the point \<open>p\<close> of the plane with normal \<open>n\<close> lies on the inner side of
  each of the three edges.
\<close>

definition inside_triangle :: "Triangle \<Rightarrow> Vec3 \<Rightarrow> Vec3 \<Rightarrow> bool" where
  "inside_triangle tri n p \<longleftrightarrow>
     0 \<le> dot (cross (subtract (tri_b tri) (tri_a tri)) (subtract p (tri_a tri))) n \<and>
     0 \<le> dot (cross (subtract (tri_c tri) (tri_b tri)) (subtract p (tri_b tri))) n \<and>
     0 \<le> dot (cross (subtract (tri_a tri) (tri_c tri)) (subtract p (tri_c tri))) n"

text \<open>
  Modelled from the spec: \<open>Line.distanceTriangle\<close> (section 4.1, Line-Triangle). If the
  line meets the triangle's plane at a point that passes the sign test, the distance
  is 0 at that point; otherwise it is the minimum of the distances to the three edges.
\<close>

definition distanceTriangle :: "real \<Rightarrow> Line \<Rightarrow> Triangle \<Rightarrow> geom_error + DistanceResult" where
  "distanceTriangle eps l tri =
     (case direction l of
        Inl e \<Rightarrow> Inl e
      | Inr d \<Rightarrow>
          (let n = cross (subtract (tri_b tri) (tri_a tri)) (subtract (tri_c tri) (tri_a tri));
               dn = dot d n;
               p = add (origin l)
                     (multiplyScalar d (dot (subtract (tri_a tri) (origin l)) n / dn))
           in if eps \<le> \<bar>dn\<bar> \<and> inside_triangle tri n p
              then Inr \<lparr>distance = 0, closestPointOnSelf = p, closestPointOnOther = p\<rparr>
              else
                (case distanceSegment eps l \<lparr>seg_start = tri_a tri, seg_end = tri_b tri\<rparr> of
                   Inl e \<Rightarrow> Inl e
                 | Inr r1 \<Rightarrow>
                     (case distanceSegment eps l \<lparr>seg_start = tri_b tri, seg_end = tri_c tri\<rparr> of
                        Inl e \<Rightarrow> Inl e
                      | Inr r2 \<Rightarrow>
                          (case distanceSegment eps l \<lparr>seg_start = tri_c tri, seg_end = tri_a tri\<rparr> of
                             Inl e \<Rightarrow> Inl e
                           | Inr r3 \<Rightarrow> Inr (closer (closer r1 r2) r3))))))"

section \<open>Properties of Mat2\<close>

subsection \<open>Records and the constructor\<close>

lemma Mat2_eta: "\<lparr>v11 = v11 m, v12 = v12 m, v21 = v21 m, v22 = v22 m\<rparr> = (m :: 'a Mat2)"
  by simp

lemma Mat2_update_all:
  "(m :: 'a Mat2)\<lparr>v11 := a, v12 := b, v21 := c, v22 := d\<rparr> = \<lparr>v11 = a, v12 = b, v21 = c, v22 = d\<rparr>"
  by (cases m) simp

lemma four_list: "length vs = 4 \<Longrightarrow> [vs ! 0, vs ! 1, vs ! 2, vs ! 3] = vs"
  by (auto simp add: eval_nat_numeral length_Suc_conv)

lemma assign_fields_flat:
  "length vs = 4 \<Longrightarrow>
   [v11 (assign_fields vs), v12 (assign_fields vs), v21 (assign_fields vs), v22 (assign_fields vs)] = vs"
  using four_list [of vs] by (simp add: assign_fields_def)

lemma new_Array_fill_small:
  "0 \<le> n \<Longrightarrow> n \<le> 4 \<Longrightarrow> new_Array_fill n v = Inr (replicate (nat n) v)"
  by (simp add: new_Array_fill_def)

lemma invalidValues_eq:
  "invalidValues values =
     Inr (if length values > 4 then [warn_over] else if length values < 4 then [warn_less] else [],
          take 4 (values @ replicate (4 - length values) 0))"
  by (simp add: invalidValues_def Let_def new_Array_fill_small nat_diff_distrib')

lemma Mat2_constructor_four:
  "Mat2_constructor [a, b, c, d] = Inr ([], \<lparr>v11 = a, v12 = b, v21 = c, v22 = d\<rparr>)"
  by (simp add: Mat2_constructor_def invalidValues_eq assign_fields_def)

lemma new_Mat2_four:
  "new_Mat2 [a, b, c, d] s =
     Inr (length (heap s), s\<lparr>heap := heap s @ [\<lparr>v11 = a, v12 = b, v21 = c, v22 = d\<rparr>]\<rparr>)"
  by (simp add: new_Mat2_def Mat2_constructor_four)

lemma new_Mat2_eq:
  "new_Mat2 values s =
     Inr (length (heap s),
          s\<lparr>heap := heap s @ [assign_fields (take 4 (values @ replicate (4 - length values) 0))],
            console := console s @
              (if length values > 4 then [warn_over]
               else if length values < 4 then [warn_less] else [])\<rparr>)"
  by (simp add: new_Mat2_def Mat2_constructor_def invalidValues_eq)

lemma new_Mat2_four_result:
  "\<exists>s'. new_Mat2 [a, b, c, d] s = Inr (length (heap s), s') \<and>
          obj s' (length (heap s)) = \<lparr>v11 = a, v12 = b, v21 = c, v22 = d\<rparr> \<and>
          (\<forall>q. allocated s q \<longrightarrow> obj s' q = obj s q) \<and>
          length (heap s') = Suc (length (heap s)) \<and> console s' = console s"
  by (simp add: new_Mat2_four obj_def allocated_def nth_append)

lemma class_init_eq:
  "class_init =
     Inr ((IDENTITY, ZERO),
          \<lparr>heap = [\<lparr>v11 = 1, v12 = 0, v21 = 0, v22 = 1\<rparr>, \<lparr>v11 = 0, v12 = 0, v21 = 0, v22 = 0\<rparr>],
           console = []\<rparr>)"
  by (simp add: class_init_def new_Mat2_four empty_store_def IDENTITY_def ZERO_def)

lemma sample_store_obj:
  "obj sample_store IDENTITY = \<lparr>v11 = 1, v12 = 0, v21 = 0, v22 = 1\<rparr>"
  "obj sample_store ZERO = \<lparr>v11 = 0, v12 = 0, v21 = 0, v22 = 0\<rparr>"
  "obj sample_store 2 = \<lparr>v11 = 1, v12 = 2, v21 = 3, v22 = 4\<rparr>"
  "length (heap sample_store) = 3"
  by (simp_all add: sample_store_def obj_def IDENTITY_def ZERO_def)

subsection \<open>The methods, as store transformers\<close>

lemma clone_eq:
  "clone m s = Inr (length (heap s), s\<lparr>heap := heap s @ [obj s m]\<rparr>)"
  by (simp add: clone_def new_Mat2_four)

lemma forEachRowOrder_eq:
  "allocated s m \<Longrightarrow>
   forEachRowOrder m fn s =
     (m, s\<lparr>heap := (heap s)[m := \<lparr>v11 = fn (v11 (obj s m)) 0, v12 = fn (v12 (obj s m)) 1,
                                 v21 = fn (v21 (obj s m)) 2, v22 = fn (v22 (obj s m)) 3\<rparr>]\<rparr>)"
  by (simp add: forEachRowOrder_def update_obj_def allocated_def obj_def Let_def Mat2_update_all)

lemma multiplyByScalar_nonzero:
  "num \<noteq> 0 \<Longrightarrow>
   multiplyByScalar m num s =
     Inr (length (heap s),
          s\<lparr>heap := heap s @ [\<lparr>v11 = v11 (obj s m) * num, v12 = v12 (obj s m) * num,
                              v21 = v21 (obj s m) * num, v22 = v22 (obj s m) * num\<rparr>]\<rparr>)"
  by (simp add: multiplyByScalar_def clone_eq forEachRowOrder_eq allocated_def obj_def)

lemma multiplyByScalar_result:
  assumes "num \<noteq> 0"
  shows "\<exists>s'. multiplyByScalar m num s = Inr (length (heap s), s') \<and>
          obj s' (length (heap s)) =
            \<lparr>v11 = v11 (obj s m) * num, v12 = v12 (obj s m) * num,
             v21 = v21 (obj s m) * num, v22 = v22 (obj s m) * num\<rparr> \<and>
          (\<forall>q. allocated s q \<longrightarrow> obj s' q = obj s q) \<and>
          length (heap s') = Suc (length (heap s)) \<and> console s' = console s"
  by (simp add: multiplyByScalar_nonzero [OF assms] obj_def allocated_def nth_append)

lemma multiply_eq:
  "multiply left right s =
     new_Mat2
       [v11 (obj s left) * v11 (obj s right) + v12 (obj s left) * v21 (obj s right),
        v11 (obj s left) * v12 (obj s right) + v12 (obj s left) * v22 (obj s right),
        v21 (obj s left) * v11 (obj s right) + v22 (obj s left) * v21 (obj s right),
        v21 (obj s left) * v12 (obj s right) + v22 (obj s left) * v22 (obj s right)] s"
  by (simp add: multiply_def flat_def toFlatArray_def toArray_def Let_def)

lemma copyTo_eq:
  assumes "allocated s t"
  shows "copyTo source (Some t) s = (t, s\<lparr>heap := (heap s)[t := obj s source]\<rparr>)"
proof (cases "source = t")
  case True
  then show ?thesis
    using assms
    by (simp add: copyTo_def Let_def update_obj_def obj_def allocated_def)
next
  case False
  then show ?thesis
    using assms
    by (simp add: copyTo_def Let_def update_obj_def obj_def allocated_def Mat2_update_all Mat2_eta)
qed

lemma copyTo_default:
  "copyTo source None s = copyTo source (Some ZERO) s"
  by (simp add: copyTo_def)

subsection \<open>Multiplication\<close>

text \<open>
  Claim C3. For every allocated matrix \<open>M\<close>, in a store where \<open>Mat2.IDENTITY\<close> holds the
  elements 1, 0, 0, 1 it was initialised with, \<open>Mat2.multiply(M, Mat2.IDENTITY)\<close> returns
  a matrix that equals \<open>M\<close> per element, and \<open>M\<close> itself is left as it was.
\<close>

theorem multiply_IDENTITY_right:
  assumes M: "allocated s M"
    and I: "allocated s IDENTITY"
    and unit: "obj s IDENTITY = \<lparr>v11 = 1, v12 = 0, v21 = 0, v22 = 1\<rparr>"
  shows "\<exists>r s'. multiply M IDENTITY s = Inr (r, s') \<and>
           equalPerElement (obj s' r) (obj s' M) \<and>
           obj s' r = obj s M \<and> obj s' M = obj s M \<and> console s' = console s"
proof -
  let ?r = "length (heap s)"
  have prod: "multiply M IDENTITY s =
      new_Mat2 [v11 (obj s M), v12 (obj s M), v21 (obj s M), v22 (obj s M)] s"
    by (simp add: multiply_eq unit)
  obtain s' where run: "new_Mat2 [v11 (obj s M), v12 (obj s M), v21 (obj s M), v22 (obj s M)] s
        = Inr (?r, s')"
    and fresh: "obj s' ?r = \<lparr>v11 = v11 (obj s M), v12 = v12 (obj s M),
                              v21 = v21 (obj s M), v22 = v22 (obj s M)\<rparr>"
    and frame: "\<forall>q. allocated s q \<longrightarrow> obj s' q = obj s q"
    and con: "console s' = console s"
    using new_Mat2_four_result by blast
  have same: "obj s' M = obj s M"
    using frame M by simp
  have res: "obj s' ?r = obj s M"
    by (simp add: fresh)
  have "equalPerElement (obj s' ?r) (obj s' M)"
    by (simp add: res same equalPerElement_def)
  then show ?thesis
    using prod run res same con by auto
qed

theorem multiply_IDENTITY_right_witness:
  "class_init =
     Inr ((IDENTITY, ZERO),
          \<lparr>heap = [\<lparr>v11 = 1, v12 = 0, v21 = 0, v22 = 1\<rparr>, \<lparr>v11 = 0, v12 = 0, v21 = 0, v22 = 0\<rparr>],
           console = []\<rparr>) \<and>
   allocated sample_store 2 \<and> allocated sample_store IDENTITY \<and>
   obj sample_store IDENTITY = \<lparr>v11 = 1, v12 = 0, v21 = 0, v22 = 1\<rparr> \<and>
   (\<exists>r s'. multiply 2 IDENTITY sample_store = Inr (r, s') \<and>
      obj s' r = \<lparr>v11 = 1, v12 = 2, v21 = 3, v22 = 4\<rparr>)"
proof -
  note sample_store_obj [simp]
  have a: "allocated sample_store 2" and b: "allocated sample_store IDENTITY"
    by (simp_all add: allocated_def IDENTITY_def)
  have c: "obj sample_store IDENTITY = \<lparr>v11 = 1, v12 = 0, v21 = 0, v22 = 1\<rparr>"
    by simp
  from multiply_IDENTITY_right [OF a b c] show ?thesis
    using a b c class_init_eq by auto
qed

subsection \<open>Arrays\<close>

text \<open>
  Claim C4, as amended. For every allocated matrix \<open>m\<close>, feeding the flat array
  \<open>Mat2.toFlatArray(m)\<close>, which is \<open>Mat2.toArray(m).flat()\<close>, into \<open>Mat2.fromArray\<close>
  returns a new matrix that equals \<open>m\<close> per element, without a warning.
\<close>

theorem fromArray_toFlatArray_roundtrip:
  fixes s :: "'a::zero store"
  assumes m: "allocated s m"
  shows "\<exists>r s'. fromArray (toFlatArray (obj s m)) s = Inr (r, s') \<and>
           \<not> allocated s r \<and> allocated s' r \<and>
           equalPerElement (obj s' r) (obj s' m) \<and>
           obj s' r = obj s m \<and> obj s' m = obj s m \<and>
           console s' = console s \<and>
           toFlatArray (obj s m) = concat (toArray (obj s m))"
proof -
  let ?r = "length (heap s)"
  have flat: "toFlatArray (obj s m) = [v11 (obj s m), v12 (obj s m), v21 (obj s m), v22 (obj s m)]"
    by (simp add: toFlatArray_def toArray_def)
  obtain s' where run: "new_Mat2 [v11 (obj s m), v12 (obj s m), v21 (obj s m), v22 (obj s m)] s
        = Inr (?r, s')"
    and fresh: "obj s' ?r = \<lparr>v11 = v11 (obj s m), v12 = v12 (obj s m),
                              v21 = v21 (obj s m), v22 = v22 (obj s m)\<rparr>"
    and frame: "\<forall>q. allocated s q \<longrightarrow> obj s' q = obj s q"
    and len: "length (heap s') = Suc (length (heap s))"
    and con: "console s' = console s"
    using new_Mat2_four_result by blast
  have same: "obj s' m = obj s m"
    using frame m by simp
  have res: "obj s' ?r = obj s m"
    by (simp add: fresh)
  have "equalPerElement (obj s' ?r) (obj s' m)"
    by (simp add: res same equalPerElement_def)
  moreover have "\<not> allocated s ?r" "allocated s' ?r"
    using len by (simp_all add: allocated_def)
  moreover have "fromArray (toFlatArray (obj s m)) s = Inr (?r, s')"
    by (simp add: fromArray_def flat run)
  ultimately show ?thesis
    using res same con by (auto simp add: toFlatArray_def)
qed

theorem fromArray_toFlatArray_roundtrip_witness:
  "allocated sample_store 2 \<and>
   toFlatArray (obj sample_store 2) = [1, 2, 3, 4] \<and>
   (\<exists>r s'. fromArray (toFlatArray (obj sample_store 2)) sample_store = Inr (r, s') \<and>
      equalPerElement (obj s' r) (obj s' 2) \<and>
      obj s' r = \<lparr>v11 = 1, v12 = 2, v21 = 3, v22 = 4\<rparr>)"
proof -
  note sample_store_obj [simp]
  have a: "allocated sample_store 2"
    by (simp add: allocated_def)
  have f: "toFlatArray (obj sample_store 2) = [1, 2, 3, 4]"
    by (simp add: toFlatArray_def toArray_def)
  from fromArray_toFlatArray_roundtrip [OF a] show ?thesis
    using a f by auto
qed

text \<open>
  The array produced by \<open>Mat2.toArray\<close> itself does not round-trip: it has two entries,
  both of them arrays. \<open>fromArray\<close> spreads it into a two-argument constructor call,
  which warns, stores the two rows in \<open>v11\<close> and \<open>v12\<close> and fills \<open>v21\<close> and \<open>v22\<close>
  with 0. The declared parameter type \<open>number[]\<close> of \<open>fromArray\<close> excludes this call.
\<close>

theorem fromArray_toArray_counterexample:
  "fromArray (js_array (toArray \<lparr>v11 = 1, v12 = 2, v21 = 3, v22 = 4\<rparr>)) empty_store =
     Inr (0, \<lparr>heap = [\<lparr>v11 = Arr [Num 1, Num 2], v12 = Arr [Num 3, Num 4],
                       v21 = Num 0, v22 = Num 0\<rparr>],
              console = [warn_less]\<rparr>) \<and>
   \<not> equalPerElement
       \<lparr>v11 = Arr [Num 1, Num 2], v12 = Arr [Num 3, Num 4], v21 = Num 0, v22 = Num 0\<rparr>
       (js_Mat2 \<lparr>v11 = 1, v12 = 2, v21 = 3, v22 = 4\<rparr>)"
  by (simp add: fromArray_def new_Mat2_eq js_array_def toArray_def assign_fields_def
      empty_store_def zero_jsval_def equalPerElement_def js_Mat2_def eval_nat_numeral)

subsection \<open>The shared zero matrix\<close>

text \<open>
  Claim C5, as amended. For every allocated matrix \<open>source\<close>, \<open>Mat2.copyTo(source)\<close> with
  the target omitted writes the four elements of \<open>source\<close> into the shared object
  \<open>Mat2.ZERO\<close>, touches no other object and returns \<open>Mat2.ZERO\<close> itself. Afterwards
  \<open>Mat2.ZERO\<close> holds the elements of \<open>source\<close>, so it no longer holds all zeros
  whenever \<open>source\<close> has a nonzero element, and \<open>Mat2.multiplyByScalar(m, 0)\<close>, which
  returns the shared \<open>Mat2.ZERO\<close> object and allocates nothing, yields the copied
  elements.
\<close>

theorem copyTo_default_overwrites_ZERO:
  assumes src: "allocated s source" and zero: "allocated s ZERO"
  shows "\<exists>s'. copyTo source None s = (ZERO, s') \<and>
           obj s' ZERO = obj s source \<and>
           (\<forall>q. q \<noteq> ZERO \<longrightarrow> obj s' q = obj s q) \<and>
           (obj s source \<noteq> \<lparr>v11 = 0, v12 = 0, v21 = 0, v22 = 0\<rparr> \<longrightarrow>
              obj s' ZERO \<noteq> \<lparr>v11 = 0, v12 = 0, v21 = 0, v22 = 0\<rparr>) \<and>
           (\<forall>m. multiplyByScalar m 0 s' = Inr (ZERO, s')) \<and>
           (\<forall>m r t. multiplyByScalar m 0 s' = Inr (r, t) \<longrightarrow> obj t r = obj s source)"
proof -
  let ?s' = "s\<lparr>heap := (heap s)[ZERO := obj s source]\<rparr>"
  have run: "copyTo source None s = (ZERO, ?s')"
    by (simp only: copyTo_default copyTo_eq [OF zero])
  have z: "obj ?s' ZERO = obj s source"
    using zero by (simp add: obj_def allocated_def)
  have frame: "\<forall>q. q \<noteq> ZERO \<longrightarrow> obj ?s' q = obj s q"
    by (simp add: obj_def)
  have scal: "\<forall>m. multiplyByScalar m 0 ?s' = Inr (ZERO, ?s')"
    by (simp add: multiplyByScalar_def)
  show ?thesis
    using run z frame scal by (intro exI [of _ ?s']) (simp only: , simp)
qed

theorem copyTo_default_overwrites_ZERO_witness:
  "allocated sample_store 2 \<and> allocated sample_store ZERO \<and>
   obj sample_store 2 \<noteq> \<lparr>v11 = 0, v12 = 0, v21 = 0, v22 = 0\<rparr> \<and>
   (\<exists>s'. copyTo 2 None sample_store = (ZERO, s') \<and>
      obj s' ZERO = \<lparr>v11 = 1, v12 = 2, v21 = 3, v22 = 4\<rparr> \<and>
      multiplyByScalar IDENTITY 0 s' = Inr (ZERO, s'))"
proof -
  note sample_store_obj [simp]
  have a: "allocated sample_store 2" and b: "allocated sample_store ZERO"
    by (simp_all add: allocated_def ZERO_def)
  have c: "obj sample_store 2 \<noteq> \<lparr>v11 = 0, v12 = 0, v21 = 0, v22 = 0\<rparr>"
    by simp
  from copyTo_default_overwrites_ZERO [OF a b] show ?thesis
    using a b c by auto
qed

text \<open>
  When the source holds four zeros, \<open>Mat2.ZERO\<close> still holds all zeros after the copy,
  and \<open>multiplyByScalar(m, 0)\<close> still yields the zero matrix.
\<close>

theorem copyTo_zero_source_counterexample:
  "copyTo 2 None zeros_store = (ZERO, zeros_store) \<and>
   obj zeros_store ZERO = \<lparr>v11 = 0, v12 = 0, v21 = 0, v22 = 0\<rparr> \<and>
   multiplyByScalar 2 0 zeros_store = Inr (ZERO, zeros_store)"
  by (simp add: copyTo_def Let_def update_obj_def obj_def zeros_store_def ZERO_def
      multiplyByScalar_def)

text \<open>
  Claim C9. For every allocated matrix \<open>m\<close> and every scalar \<open>num\<close>,
  \<open>Mat2.multiplyByScalar(m, num)\<close> returns normally and leaves \<open>m\<close>, and every other
  object allocated before the call, unchanged: for \<open>num = 0\<close> it returns the shared
  \<open>Mat2.ZERO\<close> and changes nothing, otherwise it returns a new object. Provided
  \<open>Mat2.ZERO\<close> holds four zeros, each element of the result is \<open>num\<close> times the
  corresponding element of \<open>m\<close>.
\<close>

theorem multiplyByScalar_frame:
  assumes m: "allocated s m"
  shows "\<exists>r s'. multiplyByScalar m num s = Inr (r, s') \<and>
           obj s' m = obj s m \<and>
           (\<forall>q. allocated s q \<longrightarrow> obj s' q = obj s q) \<and>
           (num = 0 \<longrightarrow> r = ZERO \<and> s' = s) \<and>
           (num \<noteq> 0 \<longrightarrow> \<not> allocated s r \<and> allocated s' r) \<and>
           (obj s ZERO = \<lparr>v11 = 0, v12 = 0, v21 = 0, v22 = 0\<rparr> \<longrightarrow>
              obj s' r = \<lparr>v11 = num * v11 (obj s m), v12 = num * v12 (obj s m),
                          v21 = num * v21 (obj s m), v22 = num * v22 (obj s m)\<rparr>)"
proof (cases "num = 0")
  case True
  then have "multiplyByScalar m num s = Inr (ZERO, s)"
    by (simp add: multiplyByScalar_def)
  then show ?thesis
    using True by simp
next
  case False
  let ?r = "length (heap s)"
  obtain s' where run: "multiplyByScalar m num s = Inr (?r, s')"
    and res: "obj s' ?r =
            \<lparr>v11 = v11 (obj s m) * num, v12 = v12 (obj s m) * num,
             v21 = v21 (obj s m) * num, v22 = v22 (obj s m) * num\<rparr>"
    and frame: "\<forall>q. allocated s q \<longrightarrow> obj s' q = obj s q"
    and len: "length (heap s') = Suc (length (heap s))"
    using multiplyByScalar_result [OF False] by blast
  have "obj s' m = obj s m"
    using frame m by simp
  moreover have "\<not> allocated s ?r" "allocated s' ?r"
    using len by (simp_all add: allocated_def)
  moreover have "obj s' ?r = \<lparr>v11 = num * v11 (obj s m), v12 = num * v12 (obj s m),
                          v21 = num * v21 (obj s m), v22 = num * v22 (obj s m)\<rparr>"
    by (simp add: res mult.commute)
  ultimately show ?thesis
    using run frame False by auto
qed

theorem multiplyByScalar_frame_witness:
  "allocated sample_store 2 \<and>
   obj sample_store ZERO = \<lparr>v11 = 0, v12 = 0, v21 = 0, v22 = 0\<rparr> \<and>
   (\<exists>r s'. multiplyByScalar 2 3 sample_store = Inr (r, s') \<and>
      obj s' 2 = \<lparr>v11 = 1, v12 = 2, v21 = 3, v22 = 4\<rparr> \<and>
      obj s' r = \<lparr>v11 = 3, v12 = 6, v21 = 9, v22 = 12\<rparr>) \<and>
   (\<exists>r s'. multiplyByScalar 2 0 sample_store = Inr (r, s') \<and>
      obj s' 2 = \<lparr>v11 = 1, v12 = 2, v21 = 3, v22 = 4\<rparr> \<and>
      obj s' r = \<lparr>v11 = 0, v12 = 0, v21 = 0, v22 = 0\<rparr>)"
proof -
  note sample_store_obj [simp]
  have a: "allocated sample_store 2"
    by (simp add: allocated_def)
  have z: "obj sample_store ZERO = \<lparr>v11 = 0, v12 = 0, v21 = 0, v22 = 0\<rparr>"
    by simp
  from multiplyByScalar_frame [OF a, of 3] z
  have three: "\<exists>r s'. multiplyByScalar 2 3 sample_store = Inr (r, s') \<and>
      obj s' 2 = \<lparr>v11 = 1, v12 = 2, v21 = 3, v22 = 4\<rparr> \<and>
      obj s' r = \<lparr>v11 = 3, v12 = 6, v21 = 9, v22 = 12\<rparr>"
    by auto
  from multiplyByScalar_frame [OF a, of 0] z
  have zero: "\<exists>r s'. multiplyByScalar 2 0 sample_store = Inr (r, s') \<and>
      obj s' 2 = \<lparr>v11 = 1, v12 = 2, v21 = 3, v22 = 4\<rparr> \<and>
      obj s' r = \<lparr>v11 = 0, v12 = 0, v21 = 0, v22 = 0\<rparr>"
    by auto
  from a z three zero show ?thesis by blast
qed

subsection \<open>Construction and comparison\<close>

text \<open>
  Claim C6. For every list of arguments the constructor returns normally. With fewer
  than four values it keeps them and fills the rest with 0, printing one warning; with
  more than four it keeps the first four, printing one warning; with exactly four it
  takes them as they are and prints nothing. In each case the values go to \<open>v11\<close>,
  \<open>v12\<close>, \<open>v21\<close>, \<open>v22\<close> in this order, and the empty argument list gives four zeros.
\<close>

theorem constructor_fills_or_truncates:
  fixes "values" :: "'a::zero list"
  shows "\<exists>warnings m.
     new_Mat2 values s =
       Inr (length (heap s), s\<lparr>heap := heap s @ [m], console := console s @ warnings\<rparr>) \<and>
     (length values < 4 \<longrightarrow>
        warnings = [warn_less] \<and>
        [v11 m, v12 m, v21 m, v22 m] = values @ replicate (4 - length values) 0) \<and>
     (length values > 4 \<longrightarrow>
        warnings = [warn_over] \<and> [v11 m, v12 m, v21 m, v22 m] = take 4 values) \<and>
     (length values = 4 \<longrightarrow>
        warnings = [] \<and> [v11 m, v12 m, v21 m, v22 m] = values) \<and>
     (values = [] \<longrightarrow> m = \<lparr>v11 = 0, v12 = 0, v21 = 0, v22 = 0\<rparr>)"
proof -
  let ?vs = "take 4 (values @ replicate (4 - length values) 0)"
  let ?w = "if length values > 4 then [warn_over]
            else if length values < 4 then [warn_less] else []"
  have len: "length ?vs = 4" by simp
  have flat: "[v11 (assign_fields ?vs), v12 (assign_fields ?vs),
               v21 (assign_fields ?vs), v22 (assign_fields ?vs)] = ?vs"
    by (rule assign_fields_flat [OF len])
  have empty: "values = [] \<Longrightarrow> assign_fields ?vs = \<lparr>v11 = 0, v12 = 0, v21 = 0, v22 = 0\<rparr>"
    by (simp add: assign_fields_def)
  have less: "length values < 4 \<Longrightarrow> ?vs = values @ replicate (4 - length values) 0"
    by simp
  have over: "length values > 4 \<Longrightarrow> ?vs = take 4 values"
    by simp
  have four: "length values = 4 \<Longrightarrow> ?vs = values"
    by simp
  have "new_Mat2 values s =
       Inr (length (heap s),
            s\<lparr>heap := heap s @ [assign_fields ?vs], console := console s @ ?w\<rparr>)"
    by (rule new_Mat2_eq)
  moreover have "length values < 4 \<longrightarrow>
        ?w = [warn_less] \<and>
        [v11 (assign_fields ?vs), v12 (assign_fields ?vs),
         v21 (assign_fields ?vs), v22 (assign_fields ?vs)] =
          values @ replicate (4 - length values) 0"
    using flat less by auto
  moreover have "length values > 4 \<longrightarrow>
        ?w = [warn_over] \<and>
        [v11 (assign_fields ?vs), v12 (assign_fields ?vs),
         v21 (assign_fields ?vs), v22 (assign_fields ?vs)] = take 4 values"
    using flat over by auto
  moreover have "length values = 4 \<longrightarrow>
        ?w = [] \<and>
        [v11 (assign_fields ?vs), v12 (assign_fields ?vs),
         v21 (assign_fields ?vs), v22 (assign_fields ?vs)] = values"
    using flat four by auto
  moreover have "values = [] \<longrightarrow>
        assign_fields ?vs = \<lparr>v11 = 0, v12 = 0, v21 = 0, v22 = 0\<rparr>"
    using empty by blast
  ultimately show ?thesis by blast
qed

theorem constructor_fills_or_truncates_witness:
  "new_Mat2 [- 3, 12 / 10 :: real] empty_store =
     Inr (0, \<lparr>heap = [\<lparr>v11 = - 3, v12 = 12 / 10, v21 = 0, v22 = 0\<rparr>], console = [warn_less]\<rparr>) \<and>
   new_Mat2 [1, 2, 3, 4, 5 :: real] empty_store =
     Inr (0, \<lparr>heap = [\<lparr>v11 = 1, v12 = 2, v21 = 3, v22 = 4\<rparr>], console = [warn_over]\<rparr>)"
proof -
  from constructor_fills_or_truncates [of "[- 3, 12 / 10 :: real]" empty_store]
  obtain w m where
    "new_Mat2 [- 3, 12 / 10 :: real] empty_store =
       Inr (0, empty_store\<lparr>heap := heap empty_store @ [m], console := console empty_store @ w\<rparr>)"
    "w = [warn_less]" "[v11 m, v12 m, v21 m, v22 m] = [- 3, 12 / 10, 0, 0]"
    by (auto simp add: empty_store_def eval_nat_numeral)
  then have less: "new_Mat2 [- 3, 12 / 10 :: real] empty_store =
     Inr (0, \<lparr>heap = [\<lparr>v11 = - 3, v12 = 12 / 10, v21 = 0, v22 = 0\<rparr>], console = [warn_less]\<rparr>)"
    by (cases m) (simp add: empty_store_def)
  from constructor_fills_or_truncates [of "[1, 2, 3, 4, 5 :: real]" empty_store]
  obtain w' m' where
    "new_Mat2 [1, 2, 3, 4, 5 :: real] empty_store =
       Inr (0, empty_store\<lparr>heap := heap empty_store @ [m'], console := console empty_store @ w'\<rparr>)"
    "w' = [warn_over]" "[v11 m', v12 m', v21 m', v22 m'] = [1, 2, 3, 4]"
    by (auto simp add: empty_store_def eval_nat_numeral)
  then have over: "new_Mat2 [1, 2, 3, 4, 5 :: real] empty_store =
     Inr (0, \<lparr>heap = [\<lparr>v11 = 1, v12 = 2, v21 = 3, v22 = 4\<rparr>], console = [warn_over]\<rparr>)"
    by (cases m') (simp add: empty_store_def)
  from less over show ?thesis by simp
qed

text \<open>
  Claim C10. \<open>Mat2.equalPerElement(a, b)\<close> is true exactly when the four pairs of
  corresponding elements are equal, that is when the two matrices hold the same
  elements. There is no tolerance: changing any one element by any nonzero amount,
  however small, makes the result false.
\<close>

theorem equalPerElement_exact:
  fixes a b :: "real Mat2"
  shows "(equalPerElement a b \<longleftrightarrow>
            v11 a = v11 b \<and> v12 a = v12 b \<and> v21 a = v21 b \<and> v22 a = v22 b) \<and>
         (equalPerElement a b \<longleftrightarrow> a = b) \<and>
         (eps \<noteq> 0 \<longrightarrow>
            \<not> equalPerElement a (a\<lparr>v11 := v11 a + eps\<rparr>) \<and>
            \<not> equalPerElement a (a\<lparr>v12 := v12 a + eps\<rparr>) \<and>
            \<not> equalPerElement a (a\<lparr>v21 := v21 a + eps\<rparr>) \<and>
            \<not> equalPerElement a (a\<lparr>v22 := v22 a + eps\<rparr>))"
  by (cases a, cases b) (simp add: equalPerElement_def)

theorem equalPerElement_exact_witness:
  "(1 / 10 ^ 10 :: real) \<noteq> 0 \<and>
   \<not> equalPerElement \<lparr>v11 = 1, v12 = 2, v21 = 3, v22 = 4\<rparr>
       \<lparr>v11 = 1 + 1 / 10 ^ 10, v12 = 2, v21 = 3, v22 = 4 :: real\<rparr> \<and>
   equalPerElement \<lparr>v11 = 1, v12 = 2, v21 = 3, v22 = 4\<rparr>
       \<lparr>v11 = 1, v12 = 2, v21 = 3, v22 = 4 :: real\<rparr>"
proof -
  have e: "(1 / 10 ^ 10 :: real) \<noteq> 0" by simp
  from equalPerElement_exact [of "\<lparr>v11 = 1, v12 = 2, v21 = 3, v22 = 4\<rparr>" _ "1 / 10 ^ 10"] e
  have "\<not> equalPerElement \<lparr>v11 = 1, v12 = 2, v21 = 3, v22 = 4\<rparr>
       \<lparr>v11 = 1 + 1 / 10 ^ 10, v12 = 2, v21 = 3, v22 = 4 :: real\<rparr>"
    by simp
  moreover from equalPerElement_exact [of "\<lparr>v11 = 1, v12 = 2, v21 = 3, v22 = 4\<rparr>"
      "\<lparr>v11 = 1, v12 = 2, v21 = 3, v22 = 4\<rparr>"]
  have "equalPerElement \<lparr>v11 = 1, v12 = 2, v21 = 3, v22 = 4\<rparr>
       \<lparr>v11 = 1, v12 = 2, v21 = 3, v22 = 4 :: real\<rparr>"
    by simp
  ultimately show ?thesis using e by blast
qed

section \<open>Properties of determinant and inverse\<close>

subsection \<open>Evaluating the arithmetic\<close>

lemmas fround_eval =
  fround_def round_magnitude_def floor_log2_def bitlen.simps pow2_def round_half_even_def Let_def

lemma overflow_determinant: "determinant (obj overflow_store 2) = Infinity False"
  by (simp add: determinant_def obj_def overflow_store_def d_sub_def fround_def
      round_magnitude_def)

lemma zero_determinant:
  "determinant \<lparr>v11 = Finite False 0, v12 = Finite False 0,
                 v21 = Finite False 0, v22 = Finite False 0\<rparr> = Finite False 0"
  by (simp add: determinant_def d_sub_def fround_def round_magnitude_def)

lemma small_store_obj:
  "obj small_store 2 =
     \<lparr>v11 = Finite False 1, v12 = Finite False 2, v21 = Finite False 3, v22 = Finite False 4\<rparr>"
  "obj small_store ZERO =
     \<lparr>v11 = Finite False 0, v12 = Finite False 0, v21 = Finite False 0, v22 = Finite False 0\<rparr>"
  "length (heap small_store) = 3"
  by (simp_all add: small_store_def obj_def ZERO_def)

lemma small_determinant: "determinant (obj small_store 2) = Finite True 2"
  by (simp add: small_store_obj determinant_def d_sub_def fround_eval)

lemma small_reciprocal: "d_div (Finite False 1) (Finite True 2) = Finite True (1 / 2)"
  by (simp add: fround_eval)

text \<open>
  Rounding can cancel a determinant: the products \<open>94906267 * 94906265\<close> and
  \<open>94906266 * 94906266\<close> differ by 1 but round to the same double, so the determinant
  of a matrix with exact determinant -1 is computed as 0.
\<close>

lemma half_floor: "\<lfloor>(9007199326062755 / 2 :: rat)\<rfloor> = 4503599663031377"
  by (simp add: floor_eq_iff)

lemma odd_product_rounds_up: "fround False 9007199326062755 = Finite False 9007199326062756"
proof -
  have b: "bitlen 9007199326062755 = 54"
    by (simp add: bitlen.simps)
  have e: "floor_log2 9007199326062755 = 53"
    by (simp add: floor_log2_def b)
  have r: "round_half_even (9007199326062755 / 2) = 4503599663031378"
    by (simp add: round_half_even_def Let_def half_floor)
  have "round_magnitude 9007199326062755 = 9007199326062756"
    by (simp add: round_magnitude_def e pow2_def Let_def r)
  then show ?thesis
    by (simp add: fround_def)
qed

lemma even_product_stays: "fround False 9007199326062756 = Finite False 9007199326062756"
proof -
  have b: "bitlen 9007199326062756 = 54"
    by (simp add: bitlen.simps)
  have e: "floor_log2 9007199326062756 = 53"
    by (simp add: floor_log2_def b)
  have r: "round_half_even 4503599663031378 = 4503599663031378"
    by (simp add: round_half_even_def Let_def)
  have "round_magnitude 9007199326062756 = 9007199326062756"
    by (simp add: round_magnitude_def e pow2_def Let_def r)
  then show ?thesis
    by (simp add: fround_def)
qed

lemma determinant_cancellation_example:
  "determinant \<lparr>v11 = Finite False 94906267, v12 = Finite False 94906266,
                 v21 = Finite False 94906266, v22 = Finite False 94906265\<rparr> = Finite False 0"
proof -
  have p: "d_mul (Finite False 94906267) (Finite False 94906265) = Finite False 9007199326062756"
    using odd_product_rounds_up by simp
  have q: "d_mul (Finite False 94906266) (Finite False 94906266) = Finite False 9007199326062756"
    using even_product_stays by simp
  show ?thesis
    by (simp only: determinant_def Mat2.select_convs p q) (simp add: d_sub_def)
qed

subsection \<open>The three paths of inverse\<close>

lemma multiplyByScalar_f64_zero:
  "strict_eq num 0 \<Longrightarrow> multiplyByScalar_f64 m num s = Inr (ZERO, s)"
  by (simp add: multiplyByScalar_f64_def)

lemma multiplyByScalar_f64_nonzero:
  "\<not> strict_eq num 0 \<Longrightarrow>
   multiplyByScalar_f64 m num s =
     Inr (length (heap s),
          s\<lparr>heap := heap s @ [\<lparr>v11 = d_mul (v11 (obj s m)) num, v12 = d_mul (v12 (obj s m)) num,
                              v21 = d_mul (v21 (obj s m)) num, v22 = d_mul (v22 (obj s m)) num\<rparr>]\<rparr>)"
  by (simp add: multiplyByScalar_f64_def clone_eq forEachRowOrder_eq allocated_def obj_def)

lemma inverse_Mat2_singular:
  "strict_eq (determinant (obj s m)) 0 \<Longrightarrow> inverse_Mat2 m s = Inl (Error inverse_msg)"
  by (simp add: inverse_Mat2_def)

lemma inverse_Mat2_zero_factor:
  assumes "\<not> strict_eq (determinant (obj s m)) 0"
    and "strict_eq (d_div (Finite False 1) (determinant (obj s m))) 0"
  shows "inverse_Mat2 m s =
      Inr (ZERO,
           s\<lparr>heap := heap s @
              [\<lparr>v11 = v22 (obj s m), v12 = d_neg (v12 (obj s m)),
                v21 = d_neg (v21 (obj s m)), v22 = v11 (obj s m)\<rparr>]\<rparr>)"
  using assms
  by (simp add: inverse_Mat2_def Let_def new_Mat2_four multiplyByScalar_f64_zero)

lemma inverse_Mat2_regular:
  assumes "\<not> strict_eq (determinant (obj s m)) 0"
    and "\<not> strict_eq (d_div (Finite False 1) (determinant (obj s m))) 0"
  shows "inverse_Mat2 m s =
      Inr (Suc (length (heap s)),
           s\<lparr>heap := heap s @
              [\<lparr>v11 = v22 (obj s m), v12 = d_neg (v12 (obj s m)),
                v21 = d_neg (v21 (obj s m)), v22 = v11 (obj s m)\<rparr>,
               inverse_elements (obj s m)]\<rparr>)"
  using assms
  by (simp add: inverse_Mat2_def Let_def new_Mat2_four multiplyByScalar_f64_nonzero obj_def
      inverse_elements_def)

lemma overflow_inverse:
  "inverse_Mat2 2 overflow_store = Inr (ZERO, overflow_store_after)"
proof -
  have nz: "\<not> strict_eq (determinant (obj overflow_store 2)) 0"
    by (simp add: overflow_determinant zero_double_def)
  have k: "strict_eq (d_div (Finite False 1) (determinant (obj overflow_store 2))) 0"
    by (simp add: overflow_determinant zero_double_def)
  show ?thesis
    by (simp add: inverse_Mat2_zero_factor [OF nz k])
       (simp add: overflow_store_def overflow_store_after_def obj_def)
qed

subsection \<open>Exact operations\<close>

lemma strict_eq_zero: "is_finite x \<Longrightarrow> strict_eq x 0 \<longleftrightarrow> val x = 0"
  by (cases x) (simp_all add: zero_double_def)

lemma strict_eq_finite:
  "is_finite x \<Longrightarrow> is_finite y \<Longrightarrow> strict_eq x y \<longleftrightarrow> val x = val y"
  by (cases x; cases y) simp_all

lemma d_div_one_finite:
  "is_finite x \<Longrightarrow> is_finite (d_div (Finite False 1) x) \<Longrightarrow> val x \<noteq> 0"
  by (cases x) (auto split: if_splits)

lemma exact_inverse_values:
  assumes "exact_inverse m"
  shows "val (v11 m) * val (v22 m) - val (v12 m) * val (v21 m) \<noteq> 0"
    and "exact (determinant m) (val (v11 m) * val (v22 m) - val (v12 m) * val (v21 m))"
    and "exact (d_div (Finite False 1) (determinant m))
           (1 / (val (v11 m) * val (v22 m) - val (v12 m) * val (v21 m)))"
    and "exact (v11 (inverse_elements m))
           (val (v22 m) / (val (v11 m) * val (v22 m) - val (v12 m) * val (v21 m)))"
    and "exact (v12 (inverse_elements m))
           (- val (v12 m) / (val (v11 m) * val (v22 m) - val (v12 m) * val (v21 m)))"
    and "exact (v21 (inverse_elements m))
           (- val (v21 m) / (val (v11 m) * val (v22 m) - val (v12 m) * val (v21 m)))"
    and "exact (v22 (inverse_elements m))
           (val (v11 m) / (val (v11 m) * val (v22 m) - val (v12 m) * val (v21 m)))"
proof -
  let ?D = "val (v11 m) * val (v22 m) - val (v12 m) * val (v21 m)"
  let ?k = "d_div (Finite False 1) (determinant m)"
  have p: "exact (d_mul (v11 m) (v22 m)) (val (v11 m) * val (v22 m))"
    and q: "exact (d_mul (v12 m) (v21 m)) (val (v12 m) * val (v21 m))"
    and det0: "exact (determinant m) (val (d_mul (v11 m) (v22 m)) - val (d_mul (v12 m) (v21 m)))"
    and k0: "exact ?k (1 / val (determinant m))"
    and e11: "exact (d_mul (v22 m) ?k) (val (v22 m) * val ?k)"
    and e12: "exact (d_mul (d_neg (v12 m)) ?k) (- val (v12 m) * val ?k)"
    and e21: "exact (d_mul (d_neg (v21 m)) ?k) (- val (v21 m) * val ?k)"
    and e22: "exact (d_mul (v11 m) ?k) (val (v11 m) * val ?k)"
    using assms by (simp_all add: exact_inverse_def Let_def determinant_def)
  show det: "exact (determinant m) ?D"
    using p q det0 by (simp add: exact_def)
  show nz: "?D \<noteq> 0"
    using det k0 d_div_one_finite [of "determinant m"] by (auto simp add: exact_def)
  show k: "exact ?k (1 / ?D)"
    using det k0 by (simp add: exact_def)
  show "exact (v11 (inverse_elements m)) (val (v22 m) / ?D)"
    using e11 k by (simp add: inverse_elements_def Let_def exact_def)
  show "exact (v12 (inverse_elements m)) (- val (v12 m) / ?D)"
    using e12 k by (simp add: inverse_elements_def Let_def exact_def)
  show "exact (v21 (inverse_elements m)) (- val (v21 m) / ?D)"
    using e21 k by (simp add: inverse_elements_def Let_def exact_def)
  show "exact (v22 (inverse_elements m)) (val (v11 m) / ?D)"
    using e22 k by (simp add: inverse_elements_def Let_def exact_def)
qed

lemma exact_inverse_regular:
  assumes "exact_inverse m"
  shows "\<not> strict_eq (determinant m) 0"
    and "\<not> strict_eq (d_div (Finite False 1) (determinant m)) 0"
proof -
  let ?D = "val (v11 m) * val (v22 m) - val (v12 m) * val (v21 m)"
  have nz: "?D \<noteq> 0" and det: "exact (determinant m) ?D"
    and k: "exact (d_div (Finite False 1) (determinant m)) (1 / ?D)"
    using exact_inverse_values [OF assms] by blast+
  show "\<not> strict_eq (determinant m) 0"
    using det nz by (simp add: exact_def strict_eq_zero)
  show "\<not> strict_eq (d_div (Finite False 1) (determinant m)) 0"
    using k nz by (simp add: exact_def strict_eq_zero)
qed

lemma exact_inverse_determinant:
  assumes "exact_inverse m"
  shows "val (v11 (inverse_elements m)) * val (v22 (inverse_elements m))
           - val (v12 (inverse_elements m)) * val (v21 (inverse_elements m))
         = 1 / (val (v11 m) * val (v22 m) - val (v12 m) * val (v21 m))"
proof -
  let ?D = "val (v11 m) * val (v22 m) - val (v12 m) * val (v21 m)"
  note v = exact_inverse_values [OF assms]
  have "val (v11 (inverse_elements m)) * val (v22 (inverse_elements m))
           - val (v12 (inverse_elements m)) * val (v21 (inverse_elements m))
        = (val (v22 m) / ?D) * (val (v11 m) / ?D) - (- val (v12 m) / ?D) * (- val (v21 m) / ?D)"
    using v(4-7) by (simp only: exact_def)
  also have "\<dots> = ?D / (?D * ?D)"
    by (simp add: algebra_simps diff_divide_distrib)
  also have "\<dots> = 1 / ?D"
    using v(1) by simp
  finally show ?thesis .
qed

lemma small_inverse_elements:
  "inverse_elements (obj small_store 2) =
     \<lparr>v11 = Finite True 2, v12 = Finite False 1, v21 = Finite False (3 / 2),
      v22 = Finite True (1 / 2)\<rparr>"
  by (simp add: inverse_elements_def small_determinant small_reciprocal)
     (simp add: small_store_obj fround_eval)

lemma small_exact_inverse: "exact_inverse (obj small_store 2)"
  by (simp add: exact_inverse_def small_store_obj exact_def d_sub_def fround_eval)

lemma small_exact_inverse_again: "exact_inverse (inverse_elements (obj small_store 2))"
  by (simp add: small_inverse_elements)
     (simp add: exact_inverse_def exact_def d_sub_def fround_eval)

subsection \<open>Inversion\<close>

text \<open>
  Claim C1, as amended. For every matrix \<open>m\<close> (in any store), \<open>Mat2.inverse(m)\<close> throws
  exactly when the double computed by \<open>Mat2.determinant(m)\<close> is \<open>=== 0\<close>, and then it
  throws \<open>Error('Can not be inverse !')\<close>. Otherwise it returns normally and leaves
  every existing object as it was. The result is a newly allocated matrix holding the
  adjugate's elements times \<open>1 / det\<close>, each product rounded, except when \<open>1 / det\<close> is
  itself \<open>=== 0\<close>, as it is for an infinite determinant: then the shared \<open>Mat2.ZERO\<close>
  is returned. When every operation of the inversion is exact, the result is a new
  matrix with finite elements whose exact determinant times that of \<open>m\<close> is 1, so it
  is not singular.
\<close>

theorem inverse_raises_iff_determinant_zero:
  "((\<exists>e. inverse_Mat2 m s = Inl e) \<longleftrightarrow> strict_eq (determinant (obj s m)) 0) \<and>
   (strict_eq (determinant (obj s m)) 0 \<longrightarrow> inverse_Mat2 m s = Inl (Error inverse_msg)) \<and>
   (\<not> strict_eq (determinant (obj s m)) 0 \<longrightarrow>
      (\<exists>r s'. inverse_Mat2 m s = Inr (r, s') \<and>
         (\<forall>q. allocated s q \<longrightarrow> obj s' q = obj s q) \<and>
         (strict_eq (d_div (Finite False 1) (determinant (obj s m))) 0 \<longrightarrow> r = ZERO) \<and>
         (\<not> strict_eq (d_div (Finite False 1) (determinant (obj s m))) 0 \<longrightarrow>
            \<not> allocated s r \<and> allocated s' r \<and>
            obj s' r =
              \<lparr>v11 = d_mul (v22 (obj s m)) (d_div (Finite False 1) (determinant (obj s m))),
               v12 = d_mul (d_neg (v12 (obj s m))) (d_div (Finite False 1) (determinant (obj s m))),
               v21 = d_mul (d_neg (v21 (obj s m))) (d_div (Finite False 1) (determinant (obj s m))),
               v22 = d_mul (v11 (obj s m)) (d_div (Finite False 1) (determinant (obj s m)))\<rparr>) \<and>
         (exact_inverse (obj s m) \<longrightarrow>
            \<not> allocated s r \<and>
            is_finite (v11 (obj s' r)) \<and> is_finite (v12 (obj s' r)) \<and>
            is_finite (v21 (obj s' r)) \<and> is_finite (v22 (obj s' r)) \<and>
            (val (v11 (obj s' r)) * val (v22 (obj s' r))
               - val (v12 (obj s' r)) * val (v21 (obj s' r)))
              * val (determinant (obj s m)) = 1)))"
proof (cases "strict_eq (determinant (obj s m)) 0")
  case True
  then show ?thesis
    by (simp add: inverse_Mat2_singular)
next
  case nonzero: False
  let ?k = "d_div (Finite False 1) (determinant (obj s m))"
  let ?adj = "\<lparr>v11 = v22 (obj s m), v12 = d_neg (v12 (obj s m)),
               v21 = d_neg (v21 (obj s m)), v22 = v11 (obj s m)\<rparr>"
  let ?inv = "\<lparr>v11 = d_mul (v22 (obj s m)) ?k, v12 = d_mul (d_neg (v12 (obj s m))) ?k,
               v21 = d_mul (d_neg (v21 (obj s m))) ?k, v22 = d_mul (v11 (obj s m)) ?k\<rparr>"
  have returns: "\<exists>r s'. inverse_Mat2 m s = Inr (r, s') \<and>
         (\<forall>q. allocated s q \<longrightarrow> obj s' q = obj s q) \<and>
         (strict_eq ?k 0 \<longrightarrow> r = ZERO) \<and>
         (\<not> strict_eq ?k 0 \<longrightarrow> \<not> allocated s r \<and> allocated s' r \<and> obj s' r = ?inv) \<and>
         (exact_inverse (obj s m) \<longrightarrow>
            \<not> allocated s r \<and>
            is_finite (v11 (obj s' r)) \<and> is_finite (v12 (obj s' r)) \<and>
            is_finite (v21 (obj s' r)) \<and> is_finite (v22 (obj s' r)) \<and>
            (val (v11 (obj s' r)) * val (v22 (obj s' r))
               - val (v12 (obj s' r)) * val (v21 (obj s' r)))
              * val (determinant (obj s m)) = 1)"
  proof (cases "strict_eq ?k 0")
    case True
    let ?s' = "s\<lparr>heap := heap s @ [?adj]\<rparr>"
    have inexact: "\<not> exact_inverse (obj s m)"
      using exact_inverse_regular(2) [of "obj s m"] True by blast
    show ?thesis
    proof (intro exI conjI)
      show "inverse_Mat2 m s = Inr (ZERO, ?s')"
        by (rule inverse_Mat2_zero_factor [OF nonzero True])
      show "\<forall>q. allocated s q \<longrightarrow> obj ?s' q = obj s q"
        by (simp add: obj_def allocated_def nth_append)
      show "strict_eq ?k 0 \<longrightarrow> ZERO = ZERO"
        by simp
      show "\<not> strict_eq ?k 0 \<longrightarrow>
            \<not> allocated s ZERO \<and> allocated ?s' ZERO \<and> obj ?s' ZERO = ?inv"
        using True by blast
      show "exact_inverse (obj s m) \<longrightarrow>
            \<not> allocated s ZERO \<and>
            is_finite (v11 (obj ?s' ZERO)) \<and> is_finite (v12 (obj ?s' ZERO)) \<and>
            is_finite (v21 (obj ?s' ZERO)) \<and> is_finite (v22 (obj ?s' ZERO)) \<and>
            (val (v11 (obj ?s' ZERO)) * val (v22 (obj ?s' ZERO))
               - val (v12 (obj ?s' ZERO)) * val (v21 (obj ?s' ZERO)))
              * val (determinant (obj s m)) = 1"
        using inexact by blast
    qed
  next
    case regular: False
    let ?r = "Suc (length (heap s))"
    let ?s' = "s\<lparr>heap := heap s @ [?adj, inverse_elements (obj s m)]\<rparr>"
    have res: "obj ?s' ?r = inverse_elements (obj s m)"
      by (simp add: obj_def nth_append)
    have elems: "inverse_elements (obj s m) = ?inv"
      by (simp add: inverse_elements_def Let_def)
    have fresh: "\<not> allocated s ?r" and present: "allocated ?s' ?r"
      by (simp_all add: allocated_def)
    show ?thesis
    proof (intro exI conjI)
      show "inverse_Mat2 m s = Inr (?r, ?s')"
        by (rule inverse_Mat2_regular [OF nonzero regular])
      show "\<forall>q. allocated s q \<longrightarrow> obj ?s' q = obj s q"
        by (simp add: obj_def allocated_def nth_append)
      show "strict_eq ?k 0 \<longrightarrow> ?r = ZERO"
        using regular by blast
      show "\<not> strict_eq ?k 0 \<longrightarrow> \<not> allocated s ?r \<and> allocated ?s' ?r \<and> obj ?s' ?r = ?inv"
        using fresh present res elems by (simp only: simp_thms)
      show "exact_inverse (obj s m) \<longrightarrow>
            \<not> allocated s ?r \<and>
            is_finite (v11 (obj ?s' ?r)) \<and> is_finite (v12 (obj ?s' ?r)) \<and>
            is_finite (v21 (obj ?s' ?r)) \<and> is_finite (v22 (obj ?s' ?r)) \<and>
            (val (v11 (obj ?s' ?r)) * val (v22 (obj ?s' ?r))
               - val (v12 (obj ?s' ?r)) * val (v21 (obj ?s' ?r)))
              * val (determinant (obj s m)) = 1"
      proof
        assume e: "exact_inverse (obj s m)"
        note v = exact_inverse_values [OF e]
        have f: "is_finite (v11 (inverse_elements (obj s m)))"
          "is_finite (v12 (inverse_elements (obj s m)))"
          "is_finite (v21 (inverse_elements (obj s m)))"
          "is_finite (v22 (inverse_elements (obj s m)))"
          using v(4-7) by (simp_all add: exact_def)
        have "(val (v11 (inverse_elements (obj s m))) * val (v22 (inverse_elements (obj s m)))
               - val (v12 (inverse_elements (obj s m))) * val (v21 (inverse_elements (obj s m))))
              * val (determinant (obj s m)) = 1"
          using exact_inverse_determinant [OF e] v(1) v(2) by (simp add: exact_def)
        with f fresh show "\<not> allocated s ?r \<and>
            is_finite (v11 (obj ?s' ?r)) \<and> is_finite (v12 (obj ?s' ?r)) \<and>
            is_finite (v21 (obj ?s' ?r)) \<and> is_finite (v22 (obj ?s' ?r)) \<and>
            (val (v11 (obj ?s' ?r)) * val (v22 (obj ?s' ?r))
               - val (v12 (obj ?s' ?r)) * val (v21 (obj ?s' ?r)))
              * val (determinant (obj s m)) = 1"
          by (simp only: res simp_thms)
      qed
    qed
  qed
  have raises: "(\<exists>e. inverse_Mat2 m s = Inl e) \<longleftrightarrow> strict_eq (determinant (obj s m)) 0"
    using returns nonzero by auto
  have message: "strict_eq (determinant (obj s m)) 0 \<longrightarrow> inverse_Mat2 m s = Inl (Error inverse_msg)"
    using nonzero by blast
  from returns have "\<not> strict_eq (determinant (obj s m)) 0 \<longrightarrow>
      (\<exists>r s'. inverse_Mat2 m s = Inr (r, s') \<and>
         (\<forall>q. allocated s q \<longrightarrow> obj s' q = obj s q) \<and>
         (strict_eq ?k 0 \<longrightarrow> r = ZERO) \<and>
         (\<not> strict_eq ?k 0 \<longrightarrow> \<not> allocated s r \<and> allocated s' r \<and> obj s' r = ?inv) \<and>
         (exact_inverse (obj s m) \<longrightarrow>
            \<not> allocated s r \<and>
            is_finite (v11 (obj s' r)) \<and> is_finite (v12 (obj s' r)) \<and>
            is_finite (v21 (obj s' r)) \<and> is_finite (v22 (obj s' r)) \<and>
            (val (v11 (obj s' r)) * val (v22 (obj s' r))
               - val (v12 (obj s' r)) * val (v21 (obj s' r)))
              * val (determinant (obj s m)) = 1))"
    by (rule impI)
  with raises message show ?thesis
    by (intro conjI)
qed

theorem inverse_raises_iff_determinant_zero_witness:
  "\<not> strict_eq (determinant (obj small_store 2)) 0 \<and>
   exact_inverse (obj small_store 2) \<and>
   (\<exists>r s'. inverse_Mat2 2 small_store = Inr (r, s') \<and>
      obj s' r =
        \<lparr>v11 = Finite True 2, v12 = Finite False 1, v21 = Finite False (3 / 2),
         v22 = Finite True (1 / 2)\<rparr>) \<and>
   strict_eq (determinant (obj small_store ZERO)) 0 \<and>
   inverse_Mat2 ZERO small_store = Inl (Error inverse_msg) \<and>
   \<not> strict_eq (determinant (obj overflow_store 2)) 0 \<and>
   strict_eq (d_div (Finite False 1) (determinant (obj overflow_store 2))) 0 \<and>
   (\<exists>s'. inverse_Mat2 2 overflow_store = Inr (ZERO, s'))"
proof -
  have regular: "\<not> strict_eq (determinant (obj small_store 2)) 0"
    by (simp add: small_determinant zero_double_def)
  have factor: "\<not> strict_eq (d_div (Finite False 1) (determinant (obj small_store 2))) 0"
    by (simp only: small_determinant small_reciprocal) (simp add: zero_double_def)
  have elems:
    "\<lparr>v11 = d_mul (v22 (obj small_store 2)) (d_div (Finite False 1) (determinant (obj small_store 2))),
      v12 = d_mul (d_neg (v12 (obj small_store 2))) (d_div (Finite False 1) (determinant (obj small_store 2))),
      v21 = d_mul (d_neg (v21 (obj small_store 2))) (d_div (Finite False 1) (determinant (obj small_store 2))),
      v22 = d_mul (v11 (obj small_store 2)) (d_div (Finite False 1) (determinant (obj small_store 2)))\<rparr>
     = \<lparr>v11 = Finite True 2, v12 = Finite False 1, v21 = Finite False (3 / 2),
        v22 = Finite True (1 / 2)\<rparr>"
    using small_inverse_elements by (simp only: inverse_elements_def Let_def)
  from inverse_raises_iff_determinant_zero [of 2 small_store] regular factor
  obtain r s' where "inverse_Mat2 2 small_store = Inr (r, s')"
    and "obj s' r =
      \<lparr>v11 = d_mul (v22 (obj small_store 2)) (d_div (Finite False 1) (determinant (obj small_store 2))),
       v12 = d_mul (d_neg (v12 (obj small_store 2))) (d_div (Finite False 1) (determinant (obj small_store 2))),
       v21 = d_mul (d_neg (v21 (obj small_store 2))) (d_div (Finite False 1) (determinant (obj small_store 2))),
       v22 = d_mul (v11 (obj small_store 2)) (d_div (Finite False 1) (determinant (obj small_store 2)))\<rparr>"
    by blast
  then have first: "\<exists>r s'. inverse_Mat2 2 small_store = Inr (r, s') \<and>
      obj s' r =
        \<lparr>v11 = Finite True 2, v12 = Finite False 1, v21 = Finite False (3 / 2),
         v22 = Finite True (1 / 2)\<rparr>"
    using elems by (intro exI [of _ r] exI [of _ s']) (simp only: simp_thms)
  have singular: "strict_eq (determinant (obj small_store ZERO)) 0"
    by (simp add: small_store_obj zero_determinant zero_double_def)
  from inverse_raises_iff_determinant_zero [of ZERO small_store] singular
  have second: "inverse_Mat2 ZERO small_store = Inl (Error inverse_msg)"
    by blast
  have big: "\<not> strict_eq (determinant (obj overflow_store 2)) 0"
    by (simp add: overflow_determinant zero_double_def)
  have lost: "strict_eq (d_div (Finite False 1) (determinant (obj overflow_store 2))) 0"
    by (simp add: overflow_determinant zero_double_def)
  from inverse_raises_iff_determinant_zero [of 2 overflow_store] big lost
  have third: "\<exists>s'. inverse_Mat2 2 overflow_store = Inr (ZERO, s')"
    by blast
  from regular small_exact_inverse first singular second big lost third
  show ?thesis by (intro conjI)
qed

text \<open>
  For \<open>new Mat2(2 ** 512, 0, 0, 2 ** 512)\<close> the determinant overflows to \<open>Infinity\<close>,
  which is not 0, so nothing is thrown; \<open>1 / Infinity\<close> is 0 and \<open>inverse\<close> returns
  the shared \<open>Mat2.ZERO\<close>, whose elements are all 0 and whose determinant is 0.
\<close>

theorem inverse_overflow_counterexample:
  "determinant (obj overflow_store 2) = Infinity False \<and>
   inverse_Mat2 2 overflow_store = Inr (ZERO, overflow_store_after) \<and>
   obj overflow_store_after ZERO =
     \<lparr>v11 = Finite False 0, v12 = Finite False 0, v21 = Finite False 0, v22 = Finite False 0\<rparr> \<and>
   determinant (obj overflow_store_after ZERO) = Finite False 0"
proof -
  have z: "obj overflow_store_after ZERO =
     \<lparr>v11 = Finite False 0, v12 = Finite False 0, v21 = Finite False 0, v22 = Finite False 0\<rparr>"
    by (simp add: overflow_store_after_def obj_def ZERO_def)
  show ?thesis
    using overflow_determinant overflow_inverse z zero_determinant by (simp only: simp_thms)
qed

text \<open>
  Claim C2, as amended. For every allocated matrix \<open>m\<close> with nonzero determinant such
  that every operation of \<open>Mat2.inverse(m)\<close> and of the inversion of its result is
  exact, the inner inverse returns a matrix whose determinant is again nonzero, the
  outer inverse does not throw, and its result equals \<open>m\<close> per element under \<open>===\<close>.
\<close>

theorem inverse_inverse_exact_roundtrip:
  assumes alloc: "allocated s m"
    and det: "\<not> strict_eq (determinant (obj s m)) 0"
    and inner: "exact_inverse (obj s m)"
    and outer: "exact_inverse (inverse_elements (obj s m))"
  shows "\<exists>r1 s1 r2 s2.
     inverse_Mat2 m s = Inr (r1, s1) \<and> obj s1 r1 = inverse_elements (obj s m) \<and>
     \<not> strict_eq (determinant (obj s1 r1)) 0 \<and>
     inverse_Mat2 r1 s1 = Inr (r2, s2) \<and>
     strict_eq (v11 (obj s2 r2)) (v11 (obj s2 m)) \<and>
     strict_eq (v12 (obj s2 r2)) (v12 (obj s2 m)) \<and>
     strict_eq (v21 (obj s2 r2)) (v21 (obj s2 m)) \<and>
     strict_eq (v22 (obj s2 r2)) (v22 (obj s2 m)) \<and>
     obj s2 m = obj s m"
proof -
  let ?M = "obj s m"
  let ?R = "inverse_elements ?M"
  let ?D = "val (v11 ?M) * val (v22 ?M) - val (v12 ?M) * val (v21 ?M)"
  let ?adj = "\<lparr>v11 = v22 ?M, v12 = d_neg (v12 ?M), v21 = d_neg (v21 ?M), v22 = v11 ?M\<rparr>"
  let ?r1 = "Suc (length (heap s))"
  let ?s1 = "s\<lparr>heap := heap s @ [?adj, ?R]\<rparr>"
  have first: "inverse_Mat2 m s = Inr (?r1, ?s1)"
    using inverse_Mat2_regular [OF det exact_inverse_regular(2) [OF inner]] .
  have obj1: "obj ?s1 ?r1 = ?R"
    by (simp add: obj_def nth_append)
  have det1: "\<not> strict_eq (determinant (obj ?s1 ?r1)) 0"
    using exact_inverse_regular(1) [OF outer] by (simp add: obj1)
  have k1: "\<not> strict_eq (d_div (Finite False 1) (determinant (obj ?s1 ?r1))) 0"
    using exact_inverse_regular(2) [OF outer] by (simp add: obj1)
  let ?adj1 = "\<lparr>v11 = v22 (obj ?s1 ?r1), v12 = d_neg (v12 (obj ?s1 ?r1)),
                v21 = d_neg (v21 (obj ?s1 ?r1)), v22 = v11 (obj ?s1 ?r1)\<rparr>"
  let ?r2 = "Suc (length (heap ?s1))"
  let ?s2 = "?s1\<lparr>heap := heap ?s1 @ [?adj1, inverse_elements (obj ?s1 ?r1)]\<rparr>"
  have second: "inverse_Mat2 ?r1 ?s1 = Inr (?r2, ?s2)"
    by (rule inverse_Mat2_regular [OF det1 k1])
  have obj2: "obj ?s2 ?r2 = inverse_elements ?R"
    by (simp add: obj_def nth_append)
  have same: "obj ?s2 m = ?M"
    using alloc by (simp add: obj_def allocated_def nth_append)
  note v = exact_inverse_values [OF inner]
  note w = exact_inverse_values [OF outer]
  have fin: "is_finite (v11 ?M)" "is_finite (v12 ?M)" "is_finite (v21 ?M)" "is_finite (v22 ?M)"
  proof -
    have "is_finite (d_mul (v11 ?M) (v22 ?M))" "is_finite (d_mul (v12 ?M) (v21 ?M))"
      using inner by (simp_all add: exact_inverse_def Let_def exact_def)
    then show "is_finite (v11 ?M)" "is_finite (v12 ?M)" "is_finite (v21 ?M)" "is_finite (v22 ?M)"
      by (cases "v11 ?M"; cases "v22 ?M"; cases "v12 ?M"; cases "v21 ?M"; simp split: if_splits)+
  qed
  have R: "val (v11 ?R) = val (v22 ?M) / ?D" "val (v12 ?R) = - val (v12 ?M) / ?D"
    "val (v21 ?R) = - val (v21 ?M) / ?D" "val (v22 ?R) = val (v11 ?M) / ?D"
    using v(4-7) by (simp_all add: exact_def)
  have D': "val (v11 ?R) * val (v22 ?R) - val (v12 ?R) * val (v21 ?R) = 1 / ?D"
    by (rule exact_inverse_determinant [OF inner])
  have e11: "exact (v11 (inverse_elements ?R)) (val (v11 ?M))"
  proof -
    have "exact (v11 (inverse_elements ?R)) (val (v22 ?R) / (1 / ?D))"
      using w(4) by (simp only: D')
    then show ?thesis using v(1) by (simp add: R)
  qed
  have e12: "exact (v12 (inverse_elements ?R)) (val (v12 ?M))"
  proof -
    have "exact (v12 (inverse_elements ?R)) (- val (v12 ?R) / (1 / ?D))"
      using w(5) by (simp only: D')
    then show ?thesis using v(1) by (simp add: R)
  qed
  have e21: "exact (v21 (inverse_elements ?R)) (val (v21 ?M))"
  proof -
    have "exact (v21 (inverse_elements ?R)) (- val (v21 ?R) / (1 / ?D))"
      using w(6) by (simp only: D')
    then show ?thesis using v(1) by (simp add: R)
  qed
  have e22: "exact (v22 (inverse_elements ?R)) (val (v22 ?M))"
  proof -
    have "exact (v22 (inverse_elements ?R)) (val (v11 ?R) / (1 / ?D))"
      using w(7) by (simp only: D')
    then show ?thesis using v(1) by (simp add: R)
  qed
  have "strict_eq (v11 (obj ?s2 ?r2)) (v11 (obj ?s2 m))"
    "strict_eq (v12 (obj ?s2 ?r2)) (v12 (obj ?s2 m))"
    "strict_eq (v21 (obj ?s2 ?r2)) (v21 (obj ?s2 m))"
    "strict_eq (v22 (obj ?s2 ?r2)) (v22 (obj ?s2 m))"
    using e11 e12 e21 e22 fin
    by (simp_all only: obj2 same) (simp_all add: exact_def strict_eq_finite)
  then show ?thesis
    using first obj1 det1 second same
    by (intro exI [of _ ?r1] exI [of _ ?s1] exI [of _ ?r2] exI [of _ ?s2] conjI)
qed

theorem inverse_inverse_exact_roundtrip_witness:
  "allocated small_store 2 \<and>
   \<not> strict_eq (determinant (obj small_store 2)) 0 \<and>
   exact_inverse (obj small_store 2) \<and>
   exact_inverse (inverse_elements (obj small_store 2)) \<and>
   (\<exists>r1 s1 r2 s2.
      inverse_Mat2 2 small_store = Inr (r1, s1) \<and>
      inverse_Mat2 r1 s1 = Inr (r2, s2) \<and>
      strict_eq (v11 (obj s2 r2)) (Finite False 1) \<and>
      strict_eq (v12 (obj s2 r2)) (Finite False 2) \<and>
      strict_eq (v21 (obj s2 r2)) (Finite False 3) \<and>
      strict_eq (v22 (obj s2 r2)) (Finite False 4))"
proof -
  have a: "allocated small_store 2"
    by (simp add: allocated_def small_store_obj)
  have d: "\<not> strict_eq (determinant (obj small_store 2)) 0"
    by (simp add: small_determinant zero_double_def)
  from inverse_inverse_exact_roundtrip [OF a d small_exact_inverse small_exact_inverse_again]
  obtain r1 s1 r2 s2 where run: "inverse_Mat2 2 small_store = Inr (r1, s1)"
      "inverse_Mat2 r1 s1 = Inr (r2, s2)"
    and eq: "strict_eq (v11 (obj s2 r2)) (v11 (obj s2 2))"
      "strict_eq (v12 (obj s2 r2)) (v12 (obj s2 2))"
      "strict_eq (v21 (obj s2 r2)) (v21 (obj s2 2))"
      "strict_eq (v22 (obj s2 r2)) (v22 (obj s2 2))"
    and same: "obj s2 2 = obj small_store 2"
    by blast
  have "strict_eq (v11 (obj s2 r2)) (Finite False 1)"
    "strict_eq (v12 (obj s2 r2)) (Finite False 2)"
    "strict_eq (v21 (obj s2 r2)) (Finite False 3)"
    "strict_eq (v22 (obj s2 r2)) (Finite False 4)"
    using eq by (simp_all add: same small_store_obj)
  with run have "\<exists>r1 s1 r2 s2.
      inverse_Mat2 2 small_store = Inr (r1, s1) \<and>
      inverse_Mat2 r1 s1 = Inr (r2, s2) \<and>
      strict_eq (v11 (obj s2 r2)) (Finite False 1) \<and>
      strict_eq (v12 (obj s2 r2)) (Finite False 2) \<and>
      strict_eq (v21 (obj s2 r2)) (Finite False 3) \<and>
      strict_eq (v22 (obj s2 r2)) (Finite False 4)"
    by (intro exI [of _ r1] exI [of _ s1] exI [of _ r2] exI [of _ s2] conjI)
  with a d small_exact_inverse small_exact_inverse_again show ?thesis
    by (intro conjI)
qed

text \<open>
  Without exactness the outer inverse can throw: for
  \<open>new Mat2(2 ** 512, 0, 0, 2 ** 512)\<close>, whose determinant is not 0, the inner inverse
  returns \<open>Mat2.ZERO\<close> and inverting that throws.
\<close>

theorem inverse_inverse_overflow_counterexample:
  "\<not> strict_eq (determinant (obj overflow_store 2)) 0 \<and>
   inverse_Mat2 2 overflow_store = Inr (ZERO, overflow_store_after) \<and>
   inverse_Mat2 ZERO overflow_store_after = Inl (Error inverse_msg)"
proof -
  have nz: "\<not> strict_eq (determinant (obj overflow_store 2)) 0"
    by (simp add: overflow_determinant zero_double_def)
  have z: "obj overflow_store_after ZERO =
     \<lparr>v11 = Finite False 0, v12 = Finite False 0, v21 = Finite False 0, v22 = Finite False 0\<rparr>"
    by (simp add: overflow_store_after_def obj_def ZERO_def)
  have "strict_eq (determinant (obj overflow_store_after ZERO)) 0"
    by (simp add: z zero_determinant zero_double_def)
  then have "inverse_Mat2 ZERO overflow_store_after = Inl (Error inverse_msg)"
    by (rule inverse_Mat2_singular)
  with nz overflow_inverse show ?thesis
    by (simp only: simp_thms)
qed

section \<open>Properties of Line\<close>

subsection \<open>Vector algebra\<close>

lemma subtract_self: "subtract v v = Vec3 0 0 0"
  by (cases v) simp

lemma length_zero_vector: "length_Vec3 (Vec3 0 0 0) = 0"
  by (simp add: length_Vec3_def lengthSquared_def)

lemma lengthSquared_nonneg: "0 \<le> lengthSquared v"
  by (cases v) (simp add: lengthSquared_def)

lemma length_Vec3_zero_iff: "length_Vec3 v = 0 \<longleftrightarrow> v = Vec3 0 0 0"
proof (cases v)
  case (Vec3 a b c)
  have "a * a + b * b + c * c = 0 \<longleftrightarrow> a = 0 \<and> b = 0 \<and> c = 0"
  proof
    assume z: "a * a + b * b + c * c = 0"
    have "0 \<le> a * a" "0 \<le> b * b" "0 \<le> c * c" by simp_all
    with z have "a * a = 0" "b * b = 0" "c * c = 0" by linarith+
    then show "a = 0 \<and> b = 0 \<and> c = 0" by simp
  qed simp
  then show ?thesis
    using Vec3 by (simp add: length_Vec3_def lengthSquared_def)
qed

lemma subtract_zero_iff: "subtract p q = Vec3 0 0 0 \<longleftrightarrow> p = q"
  by (cases p, cases q) simp

lemma dot_self_length: "dot v v = length_Vec3 v * length_Vec3 v"
  using lengthSquared_nonneg [of v] by (simp add: length_Vec3_def lengthSquared_def)

lemma subtract_add_add: "subtract (add (add p w) u) p = add w u"
  by (cases p, cases w, cases u) simp

lemma dot_add_left: "dot (add w u) q = dot w q + dot u q"
  by (cases w, cases u, cases q) (simp add: algebra_simps)

lemma dot_scale_right: "dot w (multiplyScalar v k) = dot w v * k"
  by (cases w, cases v) (simp add: algebra_simps)

lemma dot_scale_left: "dot (multiplyScalar v k) w = dot v w * k"
  by (cases w, cases v) (simp add: algebra_simps)

lemma scale_scale: "multiplyScalar (multiplyScalar v k) j = multiplyScalar v (k * j)"
  by (cases v) (simp add: algebra_simps)

lemma cross_parallel: "cross (multiplyScalar v k) (multiplyScalar v j) = Vec3 0 0 0"
  by (cases v) (simp add: algebra_simps)

lemma subtract_offset: "subtract (add (add p w) u) (add p u) = w"
  by (cases p, cases w, cases u) simp

lemma subtract_scaled:
  "subtract (add q (multiplyScalar v b)) (add q (multiplyScalar v a)) = multiplyScalar v (b - a)"
  by (cases q, cases v) (simp add: algebra_simps)

lemma length_scale: "length_Vec3 (multiplyScalar v k) = length_Vec3 v * \<bar>k\<bar>"
proof (cases v)
  case (Vec3 a b c)
  have "a * k * (a * k) + b * k * (b * k) + c * k * (c * k) = (a * a + b * b + c * c) * (k * k)"
    by (simp add: algebra_simps)
  then show ?thesis
    using Vec3 by (simp add: length_Vec3_def lengthSquared_def real_sqrt_mult)
qed

subsection \<open>The direction of a line\<close>

lemma direction_degenerate:
  "origin l = endp l \<Longrightarrow> direction l = Inl DegenerateConstruction"
  by (simp add: direction_def normalize_def subtract_self length_zero_vector)

lemma direction_regular:
  "origin l \<noteq> endp l \<Longrightarrow>
   direction l =
     Inr (multiplyScalar (subtract (endp l) (origin l))
            (1 / length_Vec3 (subtract (endp l) (origin l))))"
  by (auto simp add: direction_def normalize_def length_Vec3_zero_iff subtract_zero_iff)

lemma distance_points_degenerate:
  "origin l = endp l \<Longrightarrow> distance_points eps l p qs = Inl DegenerateConstruction"
  by (cases "(eps, l, p, qs)" rule: distance_points.cases)
     (simp_all add: distancePoint_def distanceSegment_def direction_degenerate)

lemma distancePoint_regular:
  assumes "origin l \<noteq> endp l"
  shows "distancePoint l pt =
     (let d = multiplyScalar (subtract (endp l) (origin l))
                (1 / length_Vec3 (subtract (endp l) (origin l)));
          t = dot (subtract pt (origin l)) d;
          c = add (origin l) (multiplyScalar d t)
      in Inr \<lparr>distance = length_Vec3 (subtract pt c),
              closestPointOnSelf = c, closestPointOnOther = pt\<rparr>)"
  by (simp add: distancePoint_def direction_regular [OF assms] Let_def)

lemma distancePoint_offset:
  assumes nd: "origin l \<noteq> endp l"
    and perp: "dot w (subtract (endp l) (origin l)) = 0"
  shows "distancePoint l (add (add (origin l) w) (multiplyScalar (subtract (endp l) (origin l)) a)) =
     Inr \<lparr>distance = length_Vec3 w,
          closestPointOnSelf = add (origin l) (multiplyScalar (subtract (endp l) (origin l)) a),
          closestPointOnOther =
            add (add (origin l) w) (multiplyScalar (subtract (endp l) (origin l)) a)\<rparr>"
proof -
  let ?v = "subtract (endp l) (origin l)"
  let ?n = "length_Vec3 ?v"
  let ?pt = "add (add (origin l) w) (multiplyScalar ?v a)"
  have n: "?n \<noteq> 0"
    using nd by (auto simp add: length_Vec3_zero_iff subtract_zero_iff)
  have t: "dot (subtract ?pt (origin l)) (multiplyScalar ?v (1 / ?n)) = a * ?n"
  proof -
    have "dot (subtract ?pt (origin l)) (multiplyScalar ?v (1 / ?n))
        = (dot w ?v + dot ?v ?v * a) * (1 / ?n)"
      by (simp only: subtract_add_add dot_scale_right dot_add_left dot_scale_left)
    also have "\<dots> = (?n * ?n * a) * (1 / ?n)"
      by (simp only: perp dot_self_length) simp
    also have "\<dots> = a * ?n"
      using n by simp
    finally show ?thesis .
  qed
  have c: "multiplyScalar (multiplyScalar ?v (1 / ?n)) (a * ?n) = multiplyScalar ?v a"
    using n by (simp add: scale_scale)
  show ?thesis
    by (simp only: distancePoint_regular [OF nd] Let_def t c subtract_offset)
qed

subsection \<open>The closed forms on two examples\<close>

text \<open>
  Two skew lines at distance 1, and a segment whose unconstrained parameter is negative
  and gets clamped to its start point.
\<close>

lemma distanceLine_skew_example:
  "distanceLine (1 / 10 ^ 10) \<lparr>origin = Vec3 0 0 0, endp = Vec3 1 0 0\<rparr>
       \<lparr>origin = Vec3 0 0 1, endp = Vec3 0 1 1\<rparr> =
     Inr \<lparr>distance = 1, closestPointOnSelf = Vec3 0 0 0, closestPointOnOther = Vec3 0 0 1\<rparr>"
  by (simp add: distanceLine_def direction_def normalize_def length_Vec3_def lengthSquared_def
      closest_parameters_def result_at_def)

lemma distanceSegment_clamp_example:
  "distanceSegment (1 / 10 ^ 10) \<lparr>origin = Vec3 0 0 0, endp = Vec3 0 1 0\<rparr>
       \<lparr>seg_start = Vec3 1 0 0, seg_end = Vec3 3 0 0\<rparr> =
     Inr \<lparr>distance = 1, closestPointOnSelf = Vec3 0 0 0, closestPointOnOther = Vec3 1 0 0\<rparr>"
  by (simp add: distanceSegment_def distancePoint_def direction_def normalize_def length_Vec3_def
      lengthSquared_def Let_def)

subsection \<open>Degenerate lines\<close>

text \<open>
  Claim C7. For every line built with \<open>origin\<close> equal to \<open>end\<close>, each of the six distance
  computations (\<open>distancePoint\<close>, \<open>distanceSegment\<close>, \<open>distanceLine\<close>, \<open>distanceRay\<close>,
  \<open>distanceTriangle\<close>, \<open>distancePolyline\<close>) fails with the degenerate-construction
  error, whatever the other argument is; none of them returns a number.
\<close>

theorem degenerate_line_rejected:
  assumes "origin l = endp l"
  shows "distancePoint l pt = Inl DegenerateConstruction \<and>
         distanceSegment eps l seg = Inl DegenerateConstruction \<and>
         distanceLine eps l other = Inl DegenerateConstruction \<and>
         distanceRay eps l ray = Inl DegenerateConstruction \<and>
         distanceTriangle eps l tri = Inl DegenerateConstruction \<and>
         distancePolyline eps l pl = Inl DegenerateConstruction"
proof -
  have d: "direction l = Inl DegenerateConstruction"
    by (rule direction_degenerate [OF assms])
  have "distancePolyline eps l pl = Inl DegenerateConstruction"
    by (cases pl) (simp add: distance_points_degenerate [OF assms])
  then show ?thesis
    by (simp add: d distancePoint_def distanceSegment_def distanceLine_def distanceRay_def
        distanceTriangle_def)
qed

theorem degenerate_line_rejected_witness:
  "origin \<lparr>origin = Vec3 1 2 3, endp = Vec3 1 2 3\<rparr> = endp \<lparr>origin = Vec3 1 2 3, endp = Vec3 1 2 3\<rparr> \<and>
   distancePoint \<lparr>origin = Vec3 1 2 3, endp = Vec3 1 2 3\<rparr> (Vec3 0 0 0)
     = Inl DegenerateConstruction \<and>
   distanceLine (1 / 10 ^ 10) \<lparr>origin = Vec3 1 2 3, endp = Vec3 1 2 3\<rparr>
       \<lparr>origin = Vec3 0 0 0, endp = Vec3 1 0 0\<rparr>
     = Inl DegenerateConstruction \<and>
   distancePolyline (1 / 10 ^ 10) \<lparr>origin = Vec3 1 2 3, endp = Vec3 1 2 3\<rparr>
       (Polyline (Vec3 0 0 0) [Vec3 1 0 0, Vec3 1 1 0])
     = Inl DegenerateConstruction"
proof -
  have e: "origin \<lparr>origin = Vec3 1 2 3, endp = Vec3 1 2 3\<rparr> = endp \<lparr>origin = Vec3 1 2 3, endp = Vec3 1 2 3\<rparr>"
    by simp
  from degenerate_line_rejected [OF e] show ?thesis
    using e by blast
qed

subsection \<open>Parallel lines\<close>

text \<open>
  Claim C8. Let \<open>l\<close> be a line with distinct \<open>origin\<close> and \<open>end\<close>, \<open>w\<close> a vector
  perpendicular to it, and \<open>other\<close> any line through two distinct points of the
  parallel \<open>l + w\<close>. For every positive \<open>eps\<close>, \<open>distanceLine\<close> does not fail: it takes
  the parallel branch, its result is that of \<open>distancePoint\<close> from \<open>l\<close> to the origin
  of \<open>other\<close>, and the distance it reports is the length of \<open>w\<close>, which is not 0
  unless \<open>w\<close> is the zero vector.
\<close>

theorem parallel_lines_distance:
  assumes nd: "origin l \<noteq> endp l"
    and perp: "dot w (subtract (endp l) (origin l)) = 0"
    and ab: "a \<noteq> b"
    and other: "other =
        \<lparr>origin = add (add (origin l) w) (multiplyScalar (subtract (endp l) (origin l)) a),
         endp = add (add (origin l) w) (multiplyScalar (subtract (endp l) (origin l)) b)\<rparr>"
    and eps: "0 < eps"
  shows "\<exists>r. distanceLine eps l other = Inr r \<and>
           distance r = length_Vec3 w \<and>
           distancePoint l (origin other) = Inr r \<and>
           (w \<noteq> Vec3 0 0 0 \<longrightarrow> distance r \<noteq> 0)"
proof -
  let ?v = "subtract (endp l) (origin l)"
  let ?n = "length_Vec3 ?v"
  have n: "?n \<noteq> 0"
    using nd by (auto simp add: length_Vec3_zero_iff subtract_zero_iff)
  have d0: "direction l = Inr (multiplyScalar ?v (1 / ?n))"
    by (rule direction_regular [OF nd])
  have diff: "subtract (endp other) (origin other) = multiplyScalar ?v (b - a)"
    by (simp add: other subtract_scaled)
  have len: "length_Vec3 (multiplyScalar ?v (b - a)) \<noteq> 0"
    using n ab by (simp add: length_scale)
  have d1: "direction other =
      Inr (multiplyScalar ?v ((b - a) * (1 / length_Vec3 (multiplyScalar ?v (b - a)))))"
    using len by (simp add: direction_def normalize_def diff scale_scale)
  have par: "length_Vec3 (cross (multiplyScalar ?v (1 / ?n))
       (multiplyScalar ?v ((b - a) * (1 / length_Vec3 (multiplyScalar ?v (b - a)))))) < eps"
    using eps by (simp only: cross_parallel length_zero_vector)
  have fallback: "distanceLine eps l other = distancePoint l (origin other)"
    using par by (simp add: distanceLine_def d0 d1)
  let ?r = "\<lparr>distance = length_Vec3 w,
          closestPointOnSelf = add (origin l) (multiplyScalar ?v a),
          closestPointOnOther = add (add (origin l) w) (multiplyScalar ?v a)\<rparr>"
  have pt: "distancePoint l (origin other) = Inr ?r"
    using distancePoint_offset [OF nd perp, of a] by (simp add: other)
  have "w \<noteq> Vec3 0 0 0 \<longrightarrow> distance ?r \<noteq> 0"
    by (simp add: length_Vec3_zero_iff)
  then show ?thesis
    using fallback pt by (intro exI [of _ ?r]) simp
qed

theorem parallel_lines_distance_witness:
  "origin \<lparr>origin = Vec3 0 0 0, endp = Vec3 2 0 0\<rparr> \<noteq> endp \<lparr>origin = Vec3 0 0 0, endp = Vec3 2 0 0\<rparr> \<and>
   dot (Vec3 0 0 2) (Vec3 2 0 0) = 0 \<and> (0 :: real) < 1 / 10 ^ 10 \<and>
   (\<exists>r. distanceLine (1 / 10 ^ 10) \<lparr>origin = Vec3 0 0 0, endp = Vec3 2 0 0\<rparr>
          \<lparr>origin = Vec3 0 0 2, endp = Vec3 2 0 2\<rparr> = Inr r \<and> distance r = 2)"
proof -
  let ?l = "\<lparr>origin = Vec3 0 0 0, endp = Vec3 2 0 0\<rparr>"
  have nd: "origin ?l \<noteq> endp ?l" by simp
  have perp: "dot (Vec3 0 0 2) (subtract (endp ?l) (origin ?l)) = 0" by simp
  have ab: "(0 :: real) \<noteq> 1" by simp
  have other: "\<lparr>origin = Vec3 0 0 2, endp = Vec3 2 0 2\<rparr> =
        \<lparr>origin = add (add (origin ?l) (Vec3 0 0 2)) (multiplyScalar (subtract (endp ?l) (origin ?l)) 0),
         endp = add (add (origin ?l) (Vec3 0 0 2)) (multiplyScalar (subtract (endp ?l) (origin ?l)) 1)\<rparr>"
    by simp
  have eps: "(0 :: real) < 1 / 10 ^ 10" by simp
  have w: "length_Vec3 (Vec3 0 0 2) = 2"
    by (simp add: length_Vec3_def lengthSquared_def)
  from parallel_lines_distance [OF nd perp ab other eps] w
  have "\<exists>r. distanceLine (1 / 10 ^ 10) ?l \<lparr>origin = Vec3 0 0 2, endp = Vec3 2 0 2\<rparr> = Inr r \<and>
          distance r = 2"
    by auto
  then show ?thesis
    using eps by simp
qed

end
